theory Spec2Isabelle
  imports Complex_Main
begin

section \<open>Common modelling conventions\<close>

text \<open>
  The QA harness consists of Python scripts that probe an external binary and turn the
  observations into reports. Every script is embedded as a function of the observations it
  makes of the outside world (exit codes, captured streams, elapsed times, file contents);
  the subprocess call, the clock and the file system themselves are not modelled.

  Python's \<^verbatim>\<open>float\<close> values are modelled as exact rationals: a division such as
  \<^verbatim>\<open>passed / total\<close> is the rational quotient, without binary rounding. Python's
  \<^verbatim>\<open>int\<close> is \<^typ>\<open>int\<close>, \<^verbatim>\<open>str\<close> is \<^typ>\<open>string\<close>.

  A Python \<^verbatim>\<open>dict\<close> with string keys is an association list in insertion order; the
  entries that hold formatted text only (\<^verbatim>\<open>message\<close>, timestamps, truncated dumps of
  lists) are left out of the dictionaries the model builds. No status, count, score or
  rating depends on them.
\<close>

datatype pyval = PyStr string | PyInt int | PyFloat rat | PyBool bool

type_synonym pydict = "(string \<times> pyval) list"

text \<open>\<^verbatim>\<open>d.get(key, default)\<close>\<close>

definition py_get :: "pydict \<Rightarrow> string \<Rightarrow> pyval \<Rightarrow> pyval" where
  "py_get d k dflt = (case map_of d k of Some v \<Rightarrow> v | None \<Rightarrow> dflt)"

text \<open>\<^verbatim>\<open>min(xs)\<close> and \<^verbatim>\<open>max(xs)\<close>; the source calls them on non-empty lists only.\<close>

fun py_min :: "rat list \<Rightarrow> rat" where
  "py_min [x] = x"
| "py_min (x # xs) = min x (py_min xs)"

fun py_max :: "rat list \<Rightarrow> rat" where
  "py_max [x] = x"
| "py_max (x # xs) = max x (py_max xs)"

text \<open>The value of a numeric dictionary entry as a rational (\<^verbatim>\<open>int\<close> or \<^verbatim>\<open>float\<close>).\<close>

fun py_num :: "pyval \<Rightarrow> rat" where
  "py_num (PyInt i) = of_int i"
| "py_num (PyFloat q) = q"
| "py_num (PyBool b) = (if b then 1 else 0)"
| "py_num (PyStr s) = 0"

section \<open>performance\_benchmark.py\<close>

text \<open>
  \<^verbatim>\<open>run_command\<close> returns \<^verbatim>\<open>(exit_code, stdout, stderr, duration)\<close>; it catches every
  exception and reports it as exit code \<open>-1\<close>, so a call is fully described by that tuple.
\<close>

type_synonym timed_run = "int \<times> string \<times> string \<times> rat"

subsection \<open>Rating tables\<close>

text \<open>\<^verbatim>\<open>benchmark_startup_time\<close>, lines 62--72: the rating of the average startup time.\<close>

definition startup_rating :: "rat \<Rightarrow> string" where
  "startup_rating avg_time =
     (if avg_time < 0.1 then ''EXCELLENT''
      else if avg_time < 0.5 then ''VERY_GOOD''
      else if avg_time < 1.0 then ''GOOD''
      else if avg_time < 3.0 then ''ACCEPTABLE''
      else ''POOR'')"

text \<open>\<^verbatim>\<open>benchmark_binary_size\<close>, lines 158--168: the rating of the size in MB.\<close>

definition size_rating :: "rat \<Rightarrow> string" where
  "size_rating size_mb =
     (if size_mb < 5 then ''EXCELLENT''
      else if size_mb < 10 then ''VERY_GOOD''
      else if size_mb < 20 then ''GOOD''
      else if size_mb < 50 then ''ACCEPTABLE''
      else ''LARGE'')"

text \<open>\<^verbatim>\<open>benchmark_memory_usage\<close>, lines 223--233: the rating of the peak memory in MB.\<close>

definition memory_rating :: "rat \<Rightarrow> string" where
  "memory_rating max_memory =
     (if max_memory < 50 then ''EXCELLENT''
      else if max_memory < 100 then ''VERY_GOOD''
      else if max_memory < 200 then ''GOOD''
      else if max_memory < 500 then ''ACCEPTABLE''
      else ''HIGH'')"

text \<open>
  \<^verbatim>\<open>run_all_benchmarks\<close>, lines 319--328: the dictionary \<^verbatim>\<open>rating_scores\<close> and the lookup
  \<^verbatim>\<open>rating_scores.get(rating, 3)\<close>.
\<close>

definition rating_scores :: "(string \<times> int) list" where
  "rating_scores =
     [(''EXCELLENT'', 5), (''VERY_GOOD'', 4), (''GOOD'', 3), (''ACCEPTABLE'', 2),
      (''POOR'', 1), (''HIGH'', 1), (''LARGE'', 1)]"

definition rating_score :: "string \<Rightarrow> int" where
  "rating_score rating = (case map_of rating_scores rating of Some s \<Rightarrow> s | None \<Rightarrow> 3)"

definition overall_rating_of :: "rat \<Rightarrow> string" where
  \<comment> \<open>\<^verbatim>\<open>run_all_benchmarks\<close>, lines 332--341\<close>
  "overall_rating_of score =
     (if score \<ge> 4.5 then ''EXCELLENT''
      else if score \<ge> 3.5 then ''VERY_GOOD''
      else if score \<ge> 2.5 then ''GOOD''
      else if score \<ge> 1.5 then ''ACCEPTABLE''
      else ''POOR'')"

subsection \<open>The six benchmarks\<close>

text \<open>
  Each benchmark loops over a fixed number of invocations of the binary. The model takes the
  list of the outcomes of those invocations, in call order, in place of the number of runs.
\<close>

definition benchmark_startup_time :: "timed_run list \<Rightarrow> pydict" where
  "benchmark_startup_time calls =
     (let startup_times = [duration. (exit_code, stdout, stderr, duration) \<leftarrow> calls, exit_code = 0]
      in if startup_times = [] then [(''status'', PyStr ''FAIL'')]
         else
           let avg_time = sum_list startup_times / of_nat (length startup_times);
               min_time = py_min startup_times;
               max_time = py_max startup_times;
               rating = startup_rating avg_time
           in [(''status'', PyStr ''PASS''),
               (''metric'', PyStr ''startup_time''),
               (''runs'', PyInt (int (length startup_times))),
               (''average_seconds'', PyFloat avg_time),
               (''min_seconds'', PyFloat min_time),
               (''max_seconds'', PyFloat max_time),
               (''rating'', PyStr rating)])"

definition benchmark_help_command :: "timed_run list \<Rightarrow> pydict" where
  "benchmark_help_command calls =
     (let help_times = [duration. (exit_code, stdout, stderr, duration) \<leftarrow> calls, exit_code = 0]
      in if help_times = [] then [(''status'', PyStr ''FAIL'')]
         else
           let avg_time = sum_list help_times / of_nat (length help_times)
           in [(''status'', PyStr ''PASS''),
               (''metric'', PyStr ''help_command_time''),
               (''runs'', PyInt (int (length help_times))),
               (''average_seconds'', PyFloat avg_time)])"

text \<open>
  One iteration of \<^verbatim>\<open>benchmark_config_generation\<close>: creating the temporary file may raise
  (\<open>tmp_error\<close>); after the command \<^verbatim>\<open>os.path.exists(config_path)\<close> is read once in the
  success test (\<open>created\<close>) and once in the \<^verbatim>\<open>finally\<close> block (\<open>leftover\<close>), where
  \<^verbatim>\<open>os.unlink\<close> may raise (\<open>unlink_error\<close>). Neither exception is caught by the benchmark.
\<close>

record config_run =
  tmp_error :: "string option"
  run :: timed_run
  created :: bool
  leftover :: bool
  unlink_error :: "string option"

fun config_times_of :: "config_run list \<Rightarrow> string + rat list" where
  "config_times_of [] = Inr []"
| "config_times_of (r # rest) =
     (case tmp_error r of
        Some e \<Rightarrow> Inl e
      | None \<Rightarrow>
          (case run r of (exit_code, stdout, stderr, duration) \<Rightarrow>
             let measured = (if exit_code = 0 \<and> created r then [duration] else [])
             in if leftover r \<and> unlink_error r \<noteq> None then Inl (the (unlink_error r))
                else (case config_times_of rest of
                        Inl e \<Rightarrow> Inl e
                      | Inr later \<Rightarrow> Inr (measured @ later))))"

definition benchmark_config_generation :: "config_run list \<Rightarrow> string + pydict" where
  "benchmark_config_generation calls =
     (case config_times_of calls of
        Inl e \<Rightarrow> Inl e
      | Inr config_times \<Rightarrow>
          if config_times = [] then Inr [(''status'', PyStr ''FAIL'')]
          else
            let avg_time = sum_list config_times / of_nat (length config_times)
            in Inr [(''status'', PyStr ''PASS''),
                    (''metric'', PyStr ''config_generation_time''),
                    (''runs'', PyInt (int (length config_times))),
                    (''average_seconds'', PyFloat avg_time)])"

text \<open>
  \<^verbatim>\<open>benchmark_binary_size\<close>: \<^verbatim>\<open>self.binary_path.stat()\<close> either raises (\<open>Inl\<close>) or gives the
  size in bytes (\<open>Inr\<close>).
\<close>

definition benchmark_binary_size :: "string + int \<Rightarrow> pydict" where
  "benchmark_binary_size stat =
     (case stat of
        Inl e \<Rightarrow> [(''status'', PyStr ''ERROR'')]
      | Inr size_bytes \<Rightarrow>
          let size_mb = of_int size_bytes / (1024 * 1024);
              rating = size_rating size_mb
          in [(''status'', PyStr ''PASS''),
              (''metric'', PyStr ''binary_size''),
              (''size_bytes'', PyInt size_bytes),
              (''size_mb'', PyFloat size_mb),
              (''rating'', PyStr rating)])"

text \<open>
  The memory checks start the binary and sample its resident set size while it runs. An
  observed run consists of: whether \<^verbatim>\<open>import psutil\<close> fails; whether \<^verbatim>\<open>subprocess.Popen\<close>
  raises; whether \<^verbatim>\<open>psutil.Process(process.pid)\<close> raises; and, for every test of the loop
  condition at which the child is still alive, the time elapsed since the start and the
  outcome of \<^verbatim>\<open>ps_process.memory_info()\<close>. The list of loop tests is finite: when it is
  used up, \<^verbatim>\<open>process.poll()\<close> reports that the child has exited.
\<close>

datatype poll = Rss int | No_Such_Process | Poll_Error

record memory_run =
  psutil_missing :: bool
  popen_error :: "string option"
  attach_error :: bool
  polls :: "(rat \<times> poll) list"
  elapsed :: rat

text \<open>
  \<^verbatim>\<open>benchmark_memory_usage\<close>, lines 207--213: the loop stops when the child has exited, after
  10 seconds, on \<^verbatim>\<open>psutil.NoSuchProcess\<close> (\<^verbatim>\<open>break\<close>) and on any other exception (the
  enclosing \<^verbatim>\<open>except Exception: pass\<close>); the samples taken so far are kept.
\<close>

fun sample_memory_capped :: "(rat \<times> poll) list \<Rightarrow> rat list" where
  "sample_memory_capped [] = []"
| "sample_memory_capped ((since_start, p) # rest) =
     (if since_start < 10
      then (case p of
              Rss rss \<Rightarrow> (of_int rss / 1024 / 1024) # sample_memory_capped rest
            | No_Such_Process \<Rightarrow> []
            | Poll_Error \<Rightarrow> [])
      else [])"

definition benchmark_memory_usage :: "memory_run \<Rightarrow> pydict" where
  "benchmark_memory_usage m =
     (if psutil_missing m then [(''status'', PyStr ''SKIP'')]
      else if popen_error m \<noteq> None then [(''status'', PyStr ''ERROR'')]
      else
        let memory_samples = (if attach_error m then [] else sample_memory_capped (polls m))
        in if memory_samples \<noteq> [] then
             let avg_memory = sum_list memory_samples / of_nat (length memory_samples);
                 max_memory = py_max memory_samples;
                 rating = memory_rating max_memory
             in [(''status'', PyStr ''PASS''),
                 (''metric'', PyStr ''memory_usage''),
                 (''average_mb'', PyFloat avg_memory),
                 (''peak_mb'', PyFloat max_memory),
                 (''samples'', PyInt (int (length memory_samples))),
                 (''rating'', PyStr rating)]
           else [(''status'', PyStr ''FAIL'')])"

text \<open>
  \<^verbatim>\<open>benchmark_concurrent_commands\<close>: \<open>results\<close> holds the \<^verbatim>\<open>(exit_code, duration)\<close> each
  thread appended, in the order of the appends; \<open>total_time\<close> is the wall-clock time of the
  fan-out, \<open>concurrent\<close> the number of threads.
\<close>

definition benchmark_concurrent_commands :: "int \<Rightarrow> (int \<times> rat) list \<Rightarrow> rat \<Rightarrow> pydict" where
  "benchmark_concurrent_commands concurrent results total_time =
     (let successful_runs = [(exit_code, duration). (exit_code, duration) \<leftarrow> results, exit_code = 0]
      in if successful_runs = [] then [(''status'', PyStr ''FAIL'')]
         else
           let avg_duration = sum_list (map snd successful_runs) / of_nat (length successful_runs)
           in [(''status'', PyStr ''PASS''),
               (''metric'', PyStr ''concurrent_execution''),
               (''concurrent_processes'', PyInt concurrent),
               (''successful_runs'', PyInt (int (length successful_runs))),
               (''total_time'', PyFloat total_time),
               (''average_command_duration'', PyFloat avg_duration)])"

subsection \<open>The benchmark run\<close>

record bench_world =
  binary_found :: bool
  startup_calls :: "timed_run list"
  help_calls :: "timed_run list"
  config_calls :: "config_run list"
  binary_stat :: "string + int"
  memory :: memory_run
  concurrent_results :: "(int \<times> rat) list"
  concurrent_total_time :: rat

record bench_report =
  overall_rating :: string
  overall_score :: rat
  benchmarks :: "(string \<times> pydict) list"
  summary :: pydict

text \<open>
  \<^verbatim>\<open>run_all_benchmarks\<close>, lines 316--328: the scores of the benchmarks that passed and carry
  a rating.
\<close>

definition ratings_of :: "(string \<times> pydict) list \<Rightarrow> int list" where
  "ratings_of bs =
     [(case map_of benchmark ''rating'' of
         Some (PyStr rating) \<Rightarrow> rating_score rating
       | _ \<Rightarrow> 3).
      benchmark \<leftarrow> map snd bs,
      map_of benchmark ''status'' = Some (PyStr ''PASS'') \<and> map_of benchmark ''rating'' \<noteq> None]"

definition run_all_benchmarks :: "bench_world \<Rightarrow> string + bench_report" where
  "run_all_benchmarks w =
     (case benchmark_config_generation (config_calls w) of
        Inl e \<Rightarrow> Inl e
      | Inr config_generation \<Rightarrow>
          let bs =
                [(''startup_time'', benchmark_startup_time (startup_calls w)),
                 (''help_command'', benchmark_help_command (help_calls w)),
                 (''config_generation'', config_generation),
                 (''binary_size'', benchmark_binary_size (binary_stat w)),
                 (''memory_usage'', benchmark_memory_usage (memory w)),
                 (''concurrent_execution'',
                    benchmark_concurrent_commands 5 (concurrent_results w) (concurrent_total_time w))];
              ratings = ratings_of bs;
              score =
                (if ratings \<noteq> [] then of_int (sum_list ratings) / of_nat (length ratings) else 3)
          in Inr \<lparr>overall_rating = overall_rating_of score,
                  overall_score = score,
                  benchmarks = bs,
                  summary =
                    [(''startup_time'',
                        py_get (benchmark_startup_time (startup_calls w)) ''average_seconds'' (PyInt 0)),
                     (''binary_size_mb'',
                        py_get (benchmark_binary_size (binary_stat w)) ''size_mb'' (PyInt 0)),
                     (''peak_memory_mb'',
                        py_get (benchmark_memory_usage (memory w)) ''peak_mb'' (PyInt 0)),
                     (''concurrent_success_rate'',
                        PyFloat (py_num (py_get
                          (benchmark_concurrent_commands 5 (concurrent_results w) (concurrent_total_time w))
                          ''successful_runs'' (PyInt 0)) / 5))]\<rparr>)"

text \<open>
  \<^verbatim>\<open>main\<close> of the benchmark script, as the exit code of the process: the constructor raises
  when the binary is missing, and every exception ends in exit code 1.
\<close>

definition benchmark_main :: "bench_world \<Rightarrow> int" where
  "benchmark_main w =
     (if \<not> binary_found w then 1
      else (case run_all_benchmarks w of
              Inl e \<Rightarrow> 1
            | Inr results \<Rightarrow>
                if overall_rating results \<in> set [''EXCELLENT'', ''VERY_GOOD'', ''GOOD''] then 0 else 1))"

subsection \<open>The overall rating in the words of the specification\<close>

text \<open>
  The ordinal scores and the score bands in the words of the specification, to be compared
  with \<^verbatim>\<open>rating_scores\<close> and the cascade of \<^verbatim>\<open>run_all_benchmarks\<close>.
\<close>

definition rating_labels :: "string set" where
  "rating_labels =
     {''EXCELLENT'', ''VERY_GOOD'', ''GOOD'', ''ACCEPTABLE'', ''POOR'', ''HIGH'', ''LARGE''}"

definition spec_ordinal :: "string \<Rightarrow> int" where
  "spec_ordinal label =
     (if label = ''EXCELLENT'' then 5
      else if label = ''VERY_GOOD'' then 4
      else if label = ''GOOD'' then 3
      else if label = ''ACCEPTABLE'' then 2
      else if label \<in> {''POOR'', ''HIGH'', ''LARGE''} then 1
      else 0)"

definition spec_band :: "rat \<Rightarrow> string" where
  "spec_band mean =
     (if mean \<ge> 4.5 then ''EXCELLENT''
      else if mean \<ge> 3.5 then ''VERY_GOOD''
      else if mean \<ge> 2.5 then ''GOOD''
      else if mean \<ge> 1.5 then ''ACCEPTABLE''
      else ''POOR'')"

text \<open>The ratings a run produced: the \<^verbatim>\<open>rating\<close> entries of its benchmark dictionaries.\<close>

definition produced_ratings :: "(string \<times> pydict) list \<Rightarrow> string list" where
  "produced_ratings bs =
     [rating. (metric, b) \<leftarrow> bs,
              PyStr rating \<leftarrow> (case map_of b ''rating'' of Some v \<Rightarrow> [v] | None \<Rightarrow> [])]"

text \<open>
  A benchmark dictionary is well rated when its rating, if it has one, is one of the seven
  labels and comes with the status PASS.
\<close>

definition rated_ok :: "pydict \<Rightarrow> bool" where
  "rated_ok b =
     (case map_of b ''rating'' of
        None \<Rightarrow> True
      | Some v \<Rightarrow> (\<exists>r \<in> rating_labels. v = PyStr r) \<and> map_of b ''status'' = Some (PyStr ''PASS''))"

subsection \<open>Two concrete benchmark runs\<close>

text \<open>
  A run in which nothing is rated: every timed invocation exits with code 1, the size
  analysis raises and \<^verbatim>\<open>psutil\<close> is not installed.
\<close>

definition unrated_world :: bench_world where
  "unrated_world =
     \<lparr>binary_found = True,
      startup_calls = replicate 10 (1, [], ''boom'', 0.02),
      help_calls = replicate 5 (1, [], ''boom'', 0.02),
      config_calls =
        replicate 3 \<lparr>tmp_error = None, run = (1, [], ''boom'', 0.02), created = True,
                      leftover = True, unlink_error = None\<rparr>,
      binary_stat = Inl ''No such file or directory'',
      memory = \<lparr>psutil_missing = True, popen_error = None, attach_error = False, polls = [],
                 elapsed = 0\<rparr>,
      concurrent_results = replicate 5 (1, 0.02),
      concurrent_total_time = 0.05\<rparr>"

text \<open>
  A run with two rated metrics: three startups of 0.05 seconds (EXCELLENT), a binary of 30 MB
  (ACCEPTABLE), and a memory check whose child exits before the first sample.
\<close>

definition two_rated_world :: bench_world where
  "two_rated_world =
     \<lparr>binary_found = True,
      startup_calls = replicate 3 (0, ''dattavani-asr 1.0'', [], 0.05),
      help_calls = [(0, ''usage'', [], 0.04)],
      config_calls =
        [\<lparr>tmp_error = None, run = (0, [], [], 0.2), created = True, leftover = True,
          unlink_error = None\<rparr>],
      binary_stat = Inr 31457280,
      memory = \<lparr>psutil_missing = False, popen_error = None, attach_error = False, polls = [],
                 elapsed = 0.01\<rparr>,
      concurrent_results = replicate 5 (0, 0.05),
      concurrent_total_time = 0.06\<rparr>"

section \<open>qa\_agent.py\<close>

subsection \<open>String operations\<close>

text \<open>\<^verbatim>\<open>sub in s\<close> on strings: \<open>sub\<close> occurs in \<open>s\<close> as a contiguous substring.\<close>

fun py_in :: "string \<Rightarrow> string \<Rightarrow> bool" where
  "py_in sub [] = (sub = [])"
| "py_in sub (c # cs) = (take (length sub) (c # cs) = sub \<or> py_in sub cs)"

text \<open>
  \<^verbatim>\<open>s.count(sub)\<close> for a non-empty \<open>sub\<close>: the number of non-overlapping occurrences, scanned
  from the left. The counter \<open>skip\<close> steps over the characters of an occurrence just counted.
\<close>

fun count_from :: "string \<Rightarrow> nat \<Rightarrow> string \<Rightarrow> int" where
  "count_from sub skip [] = 0"
| "count_from sub skip (c # cs) =
     (if skip > 0 then count_from sub (skip - 1) cs
      else if take (length sub) (c # cs) = sub then 1 + count_from sub (length sub - 1) cs
      else count_from sub 0 cs)"

definition py_count :: "string \<Rightarrow> string \<Rightarrow> int" where
  "py_count s sub = count_from sub 0 s"

text \<open>\<^verbatim>\<open>s.lower()\<close>, on the ASCII letters.\<close>

definition lower_char :: "char \<Rightarrow> char" where
  "lower_char c =
     (let n = (of_char c :: nat) in if 65 \<le> n \<and> n \<le> 90 then char_of (n + 32) else c)"

definition py_lower :: "string \<Rightarrow> string" where
  "py_lower s = map lower_char s"

text \<open>\<^verbatim>\<open>s.strip()\<close>: leading and trailing ASCII whitespace removed.\<close>

definition is_space :: "char \<Rightarrow> bool" where
  "is_space c = ((of_char c :: nat) \<in> {9, 10, 11, 12, 13, 28, 29, 30, 31, 32})"

definition py_strip :: "string \<Rightarrow> string" where
  "py_strip s = rev (dropWhile is_space (rev (dropWhile is_space s)))"

subsection \<open>Test results and the agent's state\<close>

text \<open>
  The dataclass \<^verbatim>\<open>TestResult\<close>, without its \<^verbatim>\<open>message\<close> and \<^verbatim>\<open>timestamp\<close>. The state of
  \<^verbatim>\<open>DattavaniQAAgent\<close> that the checks change is the list \<^verbatim>\<open>self.results\<close>.
\<close>

record test_result =
  name :: string
  category :: string
  status :: string
  duration :: rat
  details :: pydict

type_synonym agent = "test_result list"

definition add_result :: "string \<Rightarrow> string \<Rightarrow> string \<Rightarrow> rat \<Rightarrow> pydict \<Rightarrow> agent \<Rightarrow> agent" where
  "add_result n c s d dt self =
     self @ [\<lparr>name = n, category = c, status = s, duration = d, details = dt\<rparr>]"

text \<open>A check returns a truth value or raises; either way it may have added results.\<close>

datatype 'a outcome = Returned 'a | Raised string

type_synonym check = "agent \<Rightarrow> bool outcome \<times> agent"

subsection \<open>The checks\<close>

text \<open>
  Every check takes what it observes as arguments. A \<^typ>\<open>timed_run\<close> is the result of
  \<^verbatim>\<open>self.run_command\<close> (which catches every exception) together with the duration the check
  measures around it.
\<close>

definition test_binary_exists :: "bool \<Rightarrow> bool \<Rightarrow> rat \<Rightarrow> check" where
  "test_binary_exists exists executable t self =
     (if \<not> exists then
        (Returned False, add_result ''Binary Existence'' ''build'' ''FAIL'' t [] self)
      else if \<not> executable then
        (Returned False, add_result ''Binary Executable'' ''build'' ''FAIL'' t [] self)
      else (Returned True, add_result ''Binary Existence'' ''build'' ''PASS'' t [] self))"

definition test_help_command :: "timed_run \<Rightarrow> check" where
  "test_help_command call self =
     (case call of (exit_code, stdout, stderr, t) \<Rightarrow>
        if exit_code \<noteq> 0 then
          (Returned False,
           add_result ''Help Command'' ''cli'' ''FAIL'' t [(''stderr'', PyStr stderr)] self)
        else
          let expected_content =
                [''High-performance Automatic Speech Recognition'', ''Commands:'',
                 ''stream-process'', ''stream-batch'', ''supported-formats''];
              missing_content = [content. content \<leftarrow> expected_content, \<not> py_in content stdout]
          in if missing_content \<noteq> [] then
               (Returned False,
                add_result ''Help Command Content'' ''cli'' ''FAIL'' t
                  [(''stdout'', PyStr (take 500 stdout))] self)
             else
               (Returned True,
                add_result ''Help Command'' ''cli'' ''PASS'' t
                  [(''stdout_length'', PyInt (int (length stdout)))] self))"

definition test_version_command :: "timed_run \<Rightarrow> check" where
  "test_version_command call self =
     (case call of (exit_code, stdout, stderr, t) \<Rightarrow>
        if exit_code \<noteq> 0 then
          (Returned False,
           add_result ''Version Command'' ''cli'' ''FAIL'' t [(''stderr'', PyStr stderr)] self)
        else if \<not> py_in ''dattavani-asr'' (py_lower stdout) then
          (Returned False,
           add_result ''Version Command Content'' ''cli'' ''FAIL'' t
             [(''stdout'', PyStr stdout)] self)
        else
          (Returned True,
           add_result ''Version Command'' ''cli'' ''PASS'' t
             [(''version_output'', PyStr (py_strip stdout))] self))"

definition test_supported_formats :: "timed_run \<Rightarrow> check" where
  "test_supported_formats call self =
     (case call of (exit_code, stdout, stderr, t) \<Rightarrow>
        if exit_code \<noteq> 0 then
          (Returned False,
           add_result ''Supported Formats Command'' ''cli'' ''FAIL'' t
             [(''stderr'', PyStr stderr)] self)
        else
          let expected_formats = [''mp4'', ''mp3'', ''wav'', ''avi'', ''English'', ''Spanish''];
              found_formats = [fmt. fmt \<leftarrow> expected_formats, py_in fmt stderr]
          in if length found_formats < 4 then
               (Returned False,
                add_result ''Supported Formats Content'' ''cli'' ''FAIL'' t
                  [(''stderr'', PyStr (take 1000 stderr))] self)
             else
               (Returned True,
                add_result ''Supported Formats Command'' ''cli'' ''PASS'' t
                  [(''formats_found'', PyInt (int (length found_formats)))] self))"

text \<open>
  \<^verbatim>\<open>test_generate_config\<close> extends the observations of one config generation
  (\<^typ>\<open>config_run\<close>) by the outcome of reading the generated file: the text, or the exception
  \<^verbatim>\<open>open\<close>/\<^verbatim>\<open>read\<close> raises. The \<^verbatim>\<open>finally\<close> block runs on every path through the
  \<^verbatim>\<open>try\<close>; when \<^verbatim>\<open>os.unlink\<close> raises there, that exception replaces the outcome, while
  a result already added stays in \<^verbatim>\<open>self.results\<close>.
\<close>

record generated_config = config_run +
  config_text :: "string + string"

definition test_generate_config :: "generated_config \<Rightarrow> check" where
  "test_generate_config g self =
     (case tmp_error g of
        Some e \<Rightarrow> (Raised e, self)
      | None \<Rightarrow>
          (case run g of (exit_code, stdout, stderr, t) \<Rightarrow>
             let body =
               (if exit_code \<noteq> 0 then
                  (Returned False,
                   add_result ''Generate Config Command'' ''cli'' ''FAIL'' t
                     [(''stderr'', PyStr stderr)] self)
                else if \<not> created g then
                  (Returned False,
                   add_result ''Generate Config File Creation'' ''cli'' ''FAIL'' t [] self)
                else
                  (case config_text g of
                     Inl e \<Rightarrow> (Raised e, self)
                   | Inr config_content \<Rightarrow>
                       let expected_sections =
                             [''[google]'', ''[whisper]'', ''[processing]'', ''[logging]''];
                           missing_sections =
                             [section. section \<leftarrow> expected_sections, \<not> py_in section config_content]
                       in if missing_sections \<noteq> [] then
                            (Returned False,
                             add_result ''Generate Config Content'' ''cli'' ''FAIL'' t
                               [(''config_content'', PyStr (take 500 config_content))] self)
                          else
                            (Returned True,
                             add_result ''Generate Config Command'' ''cli'' ''PASS'' t
                               [(''config_size'', PyInt (int (length config_content))),
                                (''sections_found'', PyInt (int (length expected_sections)))]
                               self)))
             in if leftover g \<and> unlink_error g \<noteq> None
                then (Raised (the (unlink_error g)), snd body)
                else body))"

definition test_invalid_command :: "timed_run \<Rightarrow> check" where
  "test_invalid_command call self =
     (case call of (exit_code, stdout, stderr, t) \<Rightarrow>
        if exit_code = 0 then
          (Returned False,
           add_result ''Invalid Command Handling'' ''cli'' ''FAIL'' t
             [(''stdout'', PyStr stdout), (''stderr'', PyStr stderr)] self)
        else
          let error_indicators = [''error'', ''invalid'', ''unknown'', ''help''];
              has_error_info =
                (\<exists>indicator \<in> set error_indicators.
                    py_in indicator (py_lower stderr) \<or> py_in indicator (py_lower stdout))
          in if \<not> has_error_info then
               (Returned False,
                add_result ''Invalid Command Error Message'' ''cli'' ''FAIL'' t
                  [(''stdout'', PyStr stdout), (''stderr'', PyStr stderr)] self)
             else
               (Returned True,
                add_result ''Invalid Command Handling'' ''cli'' ''PASS'' t
                  [(''exit_code'', PyInt exit_code)] self))"

text \<open>\<^verbatim>\<open>test_performance_startup\<close>: \<open>calls\<close> are the five timed invocations.\<close>

definition test_performance_startup :: "timed_run list \<Rightarrow> check" where
  "test_performance_startup calls self =
     (let startup_times = [t. (exit_code, stdout, stderr, t) \<leftarrow> calls, exit_code = 0]
      in if startup_times = [] then
           (Returned False,
            add_result ''Startup Performance'' ''performance'' ''FAIL'' 0 [] self)
         else
           let avg_startup = sum_list startup_times / of_nat (length startup_times);
               max_startup = py_max startup_times;
               min_startup = py_min startup_times;
               excellent_threshold = 1.0;
               good_threshold = 3.0;
               verdict = (if avg_startup < excellent_threshold then ''PASS''
                          else if avg_startup < good_threshold then ''PASS''
                          else ''FAIL'')
           in (Returned (verdict = ''PASS''),
               add_result ''Startup Performance'' ''performance'' verdict avg_startup
                 [(''average_startup'', PyFloat avg_startup),
                  (''min_startup'', PyFloat min_startup),
                  (''max_startup'', PyFloat max_startup),
                  (''runs'', PyInt (int (length startup_times)))] self))"

text \<open>
  \<^verbatim>\<open>test_memory_usage\<close>, lines 467--473: the sampling loop of the suite has no time limit; it
  stops when the child has exited, on \<^verbatim>\<open>psutil.NoSuchProcess\<close> and on any other exception.
\<close>

fun sample_memory :: "(rat \<times> poll) list \<Rightarrow> rat list" where
  "sample_memory [] = []"
| "sample_memory ((since_start, p) # rest) =
     (case p of
        Rss rss \<Rightarrow> (of_int rss / 1024 / 1024) # sample_memory rest
      | No_Such_Process \<Rightarrow> []
      | Poll_Error \<Rightarrow> [])"

definition test_memory_usage :: "memory_run \<Rightarrow> check" where
  "test_memory_usage m self =
     (if psutil_missing m then
        (Returned True, add_result ''Memory Usage'' ''performance'' ''SKIP'' (elapsed m) [] self)
      else
        (case popen_error m of
           Some e \<Rightarrow> (Raised e, self)
         | None \<Rightarrow>
             let memory_samples = (if attach_error m then [] else sample_memory (polls m))
             in if memory_samples \<noteq> [] then
                  let avg_memory = sum_list memory_samples / of_nat (length memory_samples);
                      max_memory = py_max memory_samples;
                      excellent_threshold = 100;
                      good_threshold = 500;
                      verdict = (if max_memory < excellent_threshold then ''PASS''
                                 else if max_memory < good_threshold then ''PASS''
                                 else ''FAIL'')
                  in (Returned (verdict = ''PASS''),
                      add_result ''Memory Usage'' ''performance'' verdict (elapsed m)
                        [(''average_memory_mb'', PyFloat avg_memory),
                         (''peak_memory_mb'', PyFloat max_memory),
                         (''samples'', PyInt (int (length memory_samples)))] self)
                else
                  (Returned True,
                   add_result ''Memory Usage'' ''performance'' ''SKIP'' (elapsed m) [] self)))"

definition test_code_quality :: "timed_run \<Rightarrow> check" where
  "test_code_quality call self =
     (case call of (exit_code, stdout, stderr, t) \<Rightarrow>
        if exit_code \<noteq> 0 then
          let warning_count = py_count stderr ''warning:'';
              error_count = py_count stderr ''error:''
          in if error_count > 0 then
               (Returned False,
                add_result ''Code Quality (Clippy)'' ''quality'' ''FAIL'' t
                  [(''errors'', PyInt error_count), (''warnings'', PyInt warning_count),
                   (''output'', PyStr (take 1000 stderr))] self)
             else
               (Returned True,
                add_result ''Code Quality (Clippy)'' ''quality'' ''PASS'' t
                  [(''warnings'', PyInt warning_count)] self)
        else
          (Returned True, add_result ''Code Quality (Clippy)'' ''quality'' ''PASS'' t [] self))"

text \<open>
  \<^verbatim>\<open>test_build_reproducibility\<close> reads the binary twice and hashes it; each read gives the
  hex digest or raises. \<open>cargo_build\<close> is the \<^verbatim>\<open>(exit_code, stdout, stderr)\<close> of the rebuild
  and \<open>clock\<close> the time since the start of the check, read where the check reports.
\<close>

record rebuild =
  binary_there :: bool
  original_digest :: "string + string"
  cargo_build :: "int \<times> string \<times> string"
  new_digest :: "string + string"
  clock :: rat

definition test_build_reproducibility :: "rebuild \<Rightarrow> check" where
  "test_build_reproducibility b self =
     (if \<not> binary_there b then
        (Returned True, add_result ''Build Reproducibility'' ''build'' ''SKIP'' (clock b) [] self)
      else
        (case original_digest b of
           Inl e \<Rightarrow> (Raised e, self)
         | Inr original_hash \<Rightarrow>
             (case cargo_build b of (exit_code, stdout, stderr) \<Rightarrow>
                if exit_code \<noteq> 0 then
                  (Returned False,
                   add_result ''Build Reproducibility'' ''build'' ''FAIL'' (clock b)
                     [(''stderr'', PyStr (take 500 stderr))] self)
                else
                  (case new_digest b of
                     Inl e \<Rightarrow> (Raised e, self)
                   | Inr new_hash \<Rightarrow>
                       if original_hash = new_hash then
                         (Returned True,
                          add_result ''Build Reproducibility'' ''build'' ''PASS'' (clock b)
                            [(''hash'', PyStr (take 16 original_hash @ ''...''))] self)
                       else
                         (Returned False,
                          add_result ''Build Reproducibility'' ''build'' ''FAIL'' (clock b)
                            [(''original_hash'', PyStr (take 16 original_hash @ ''...'')),
                             (''new_hash'', PyStr (take 16 new_hash @ ''...''))] self)))))"

subsection \<open>The suite run\<close>

text \<open>Everything one run of the suite observes.\<close>

record suite_world =
  binary_check :: "bool \<times> bool \<times> rat"
  rebuild_check :: rebuild
  help_call :: timed_run
  version_call :: timed_run
  formats_call :: timed_run
  config_check :: generated_config
  invalid_call :: timed_run
  startup_timings :: "timed_run list"
  memory_check :: memory_run
  clippy_call :: timed_run
  binary_path :: string
  binary_present :: bool
  binary_bytes :: int
  total_duration :: rat

text \<open>
  The dataclass \<^verbatim>\<open>QAReport\<close> (without its timestamp) and its \<^verbatim>\<open>summary\<close> dictionary. The
  report's \<^verbatim>\<open>duration\<close> is the field \<open>run_duration\<close> and the summary's \<^verbatim>\<open>binary_path\<close> the
  field \<open>summary_binary_path\<close>, the plain names being taken by \<^typ>\<open>test_result\<close> and
  \<^typ>\<open>suite_world\<close>.
\<close>

record report_summary =
  overall_status :: string
  pass_rate :: rat
  categories_tested :: "string list"
  summary_binary_path :: string
  binary_exists :: bool
  binary_size_mb :: rat

record qa_report =
  total_tests :: int
  passed :: int
  failed :: int
  skipped :: int
  errors :: int
  run_duration :: rat
  results :: "test_result list"
  summary :: report_summary

text \<open>
  \<^verbatim>\<open>run_all_tests\<close>, lines 639--662: the registry, in insertion order, each check with its
  \<^verbatim>\<open>__name__\<close>, and the filter by the requested categories (\<^verbatim>\<open>None\<close> and the empty list
  select everything).
\<close>

definition test_categories :: "suite_world \<Rightarrow> (string \<times> (string \<times> check) list) list" where
  "test_categories w =
     [(''build'',
         [(''test_binary_exists'',
             (case binary_check w of (exists, executable, t) \<Rightarrow>
                test_binary_exists exists executable t)),
          (''test_build_reproducibility'', test_build_reproducibility (rebuild_check w))]),
      (''cli'',
         [(''test_help_command'', test_help_command (help_call w)),
          (''test_version_command'', test_version_command (version_call w)),
          (''test_supported_formats'', test_supported_formats (formats_call w)),
          (''test_generate_config'', test_generate_config (config_check w)),
          (''test_invalid_command'', test_invalid_command (invalid_call w))]),
      (''performance'',
         [(''test_performance_startup'', test_performance_startup (startup_timings w)),
          (''test_memory_usage'', test_memory_usage (memory_check w))]),
      (''quality'',
         [(''test_code_quality'', test_code_quality (clippy_call w))])]"

definition selected_categories ::
  "string list option \<Rightarrow> suite_world \<Rightarrow> (string \<times> (string \<times> check) list) list" where
  "selected_categories categories w =
     (case categories of
        None \<Rightarrow> test_categories w
      | Some cs \<Rightarrow>
          if cs = [] then test_categories w
          else [(k, v). (k, v) \<leftarrow> test_categories w, k \<in> set cs])"

text \<open>
  Lines 665--678: an exception of a check becomes a result with status ERROR under the
  check's function name, and the loop goes on.
\<close>

definition run_test :: "string \<Rightarrow> string \<times> check \<Rightarrow> agent \<Rightarrow> agent" where
  "run_test cat test self =
     (case snd test self of
        (Returned b, self') \<Rightarrow> self'
      | (Raised e, self') \<Rightarrow>
          add_result (fst test) cat ''ERROR'' 0 [(''exception'', PyStr e)] self')"

definition run_category :: "string \<times> (string \<times> check) list \<Rightarrow> agent \<Rightarrow> agent" where
  "run_category entry self = fold (run_test (fst entry)) (snd entry) self"

text \<open>Lines 680--709: the counts and the summary of the report.\<close>

definition build_report :: "string list \<Rightarrow> suite_world \<Rightarrow> agent \<Rightarrow> qa_report" where
  "build_report tested w rs =
     (let n_passed = int (length [r. r \<leftarrow> rs, status r = ''PASS'']);
          n_failed = int (length [r. r \<leftarrow> rs, status r = ''FAIL'']);
          n_skipped = int (length [r. r \<leftarrow> rs, status r = ''SKIP'']);
          n_errors = int (length [r. r \<leftarrow> rs, status r = ''ERROR''])
      in \<lparr>total_tests = int (length rs),
          passed = n_passed,
          failed = n_failed,
          skipped = n_skipped,
          errors = n_errors,
          run_duration = total_duration w,
          results = rs,
          summary =
            \<lparr>overall_status = (if n_failed = 0 \<and> n_errors = 0 then ''PASS'' else ''FAIL''),
             pass_rate = (if rs \<noteq> [] then of_int n_passed / of_nat (length rs) else 0),
             categories_tested = tested,
             summary_binary_path = binary_path w,
             binary_exists = binary_present w,
             binary_size_mb =
               (if binary_present w then of_int (binary_bytes w) / 1024 / 1024 else 0)\<rparr>\<rparr>)"

definition run_all_tests :: "string list option \<Rightarrow> suite_world \<Rightarrow> agent \<Rightarrow> qa_report" where
  "run_all_tests categories w self =
     (let chosen = selected_categories categories w
      in build_report (map fst chosen) w (fold run_category chosen self))"

text \<open>\<^verbatim>\<open>main\<close> of the suite, as the exit code: the agent starts with no results.\<close>

definition qa_agent_main :: "string list option \<Rightarrow> suite_world \<Rightarrow> int" where
  "qa_agent_main categories w =
     (if overall_status (summary (run_all_tests categories w [])) = ''PASS'' then 0 else 1)"

subsection \<open>The status enumeration and a concrete suite run\<close>

text \<open>The four statuses of the data model.\<close>

definition suite_statuses :: "string set" where
  "suite_statuses = {''PASS'', ''FAIL'', ''SKIP'', ''ERROR''}"

definition statuses_ok :: "agent \<Rightarrow> bool" where
  "statuses_ok rs = list_all (\<lambda>r. status r \<in> suite_statuses) rs"

text \<open>A check is sound when it keeps every recorded status inside the enumeration.\<close>

definition sound_check :: "check \<Rightarrow> bool" where
  "sound_check c = (\<forall>self. statuses_ok self \<longrightarrow> statuses_ok (snd (c self)))"

text \<open>
  The memory observation in which the child starts, \<^verbatim>\<open>psutil\<close> is available, and the child
  has exited before the first test of the loop condition: no sample is taken.
\<close>

definition early_exit :: memory_run where
  "early_exit =
     \<lparr>psutil_missing = False, popen_error = None, attach_error = False, polls = [],
      elapsed = 0.01\<rparr>"

text \<open>
  A run of the whole suite: the binary is in place and answers as expected, reading the
  generated configuration raises, the memory check sees no sample, and clippy reports an
  error.
\<close>

definition demo_world :: suite_world where
  "demo_world =
     \<lparr>binary_check = (True, True, 0.001),
      rebuild_check =
        \<lparr>binary_there = True, original_digest = Inr ''9f86d081884c7d659a2feaa0c55ad015'',
         cargo_build = (0, [], ''Finished release''),
         new_digest = Inr ''9f86d081884c7d659a2feaa0c55ad015'', clock = 42\<rparr>,
      help_call =
        (0, ''High-performance Automatic Speech Recognition. Commands: stream-process stream-batch supported-formats'',
         [], 0.02),
      version_call = (0, ''Dattavani-ASR 1.0.0'', [], 0.01),
      formats_call = (0, [], ''mp4 mp3 wav avi English'', 0.02),
      config_check =
        \<lparr>tmp_error = None, run = (0, [], [], 0.03), created = True, leftover = True,
         unlink_error = None, config_text = Inl ''Permission denied''\<rparr>,
      invalid_call = (2, [], ''error: unrecognized subcommand'', 0.01),
      startup_timings = replicate 5 (0, ''Dattavani-ASR 1.0.0'', [], 0.02),
      memory_check = early_exit,
      clippy_call = (101, [], ''warning: unused variable. error: mismatched types'', 30),
      binary_path = ''target/release/dattavani-asr'',
      binary_present = True,
      binary_bytes = 31457280,
      total_duration = 75\<rparr>"

section \<open>security\_check.py\<close>

text \<open>
  Each security check returns a dictionary with a \<^verbatim>\<open>status\<close> and a count. What the checks
  read from the project is given as arguments: the exit code of \<^verbatim>\<open>cargo audit\<close> and the
  number of vulnerabilities its JSON output lists (\<open>None\<close> when the output does not parse);
  the text of \<^verbatim>\<open>Cargo.toml\<close>; the matches of the secret patterns; the lines of the Rust
  files; the modes of the project's files.
\<close>

definition check_cargo_audit :: "int \<Rightarrow> int option \<Rightarrow> pydict" where
  "check_cargo_audit exit_code parsed =
     (if exit_code = 0 then
        (case parsed of
           Some n_vulnerabilities \<Rightarrow>
             [(''status'', PyStr (if n_vulnerabilities = 0 then ''PASS'' else ''FAIL'')),
              (''vulnerabilities_found'', PyInt n_vulnerabilities)]
         | None \<Rightarrow> [(''status'', PyStr ''ERROR'')])
      else [(''status'', PyStr ''ERROR'')])"

text \<open>
  \<^verbatim>\<open>check_dependencies\<close>: \<open>None\<close> when \<^verbatim>\<open>Cargo.toml\<close> does not exist, \<open>Inl\<close> when reading
  it raises, \<open>Inr\<close> its text.
\<close>

definition check_dependencies :: "(string + string) option \<Rightarrow> pydict" where
  "check_dependencies cargo_toml =
     (case cargo_toml of
        None \<Rightarrow> [(''status'', PyStr ''ERROR'')]
      | Some (Inl e) \<Rightarrow> [(''status'', PyStr ''ERROR'')]
      | Some (Inr content) \<Rightarrow>
          let issues =
                (if py_in ''git ='' content then [''Git dependencies found''] else [])
                @ (if py_in ''path ='' content \<and> py_in ''..'' content
                   then [''External path dependencies found''] else [])
                @ (if py_in [CHR 0x22, CHR ''*'', CHR 0x22] content
                   then [''Wildcard version dependencies found''] else [])
          in [(''status'', PyStr (if length issues = 0 then ''PASS'' else ''WARN'')),
              (''issues_found'', PyInt (int (length issues)))])"

definition check_secrets :: "string list \<Rightarrow> pydict" where
  "check_secrets secrets_found =
     [(''status'', PyStr (if length secrets_found = 0 then ''PASS'' else ''FAIL'')),
      (''secrets_found'', PyInt (int (length secrets_found)))]"

definition check_unsafe_code :: "string list list \<Rightarrow> pydict" where
  "check_unsafe_code rust_files =
     (let unsafe_blocks =
            [line. lines \<leftarrow> rust_files, line \<leftarrow> lines, py_in ''unsafe'' line \<and> py_in ''{'' line]
      in [(''status'', PyStr (if length unsafe_blocks = 0 then ''PASS'' else ''WARN'')),
          (''unsafe_blocks_found'', PyInt (int (length unsafe_blocks)))])"

text \<open>
  \<^verbatim>\<open>check_file_permissions\<close>: the last octal digit of \<^verbatim>\<open>st_mode\<close> is 6 or 7 for a
  world-writable file.
\<close>

definition check_file_permissions :: "bool \<Rightarrow> int list \<Rightarrow> pydict" where
  "check_file_permissions windows modes =
     (if windows then [(''status'', PyStr ''SKIP'')]
      else
        let suspicious_files = [mode. mode \<leftarrow> modes, mode mod 8 = 6 \<or> mode mod 8 = 7]
        in [(''status'', PyStr (if length suspicious_files = 0 then ''PASS'' else ''WARN'')),
            (''suspicious_files_found'', PyInt (int (length suspicious_files)))])"

record security_world =
  audit_exit_code :: int
  audit_parsed :: "int option"
  cargo_toml :: "(string + string) option"
  secret_matches :: "string list"
  rust_sources :: "string list list"
  on_windows :: bool
  file_modes :: "int list"

text \<open>
  The result of \<^verbatim>\<open>run_all_checks\<close>; its key \<^verbatim>\<open>overall_status\<close> is the field
  \<open>security_status\<close>.
\<close>

record security_report =
  security_status :: string
  total_checks :: int
  total_issues :: int
  critical_issues :: int
  checks :: "(string \<times> pydict) list"

definition run_all_checks :: "security_world \<Rightarrow> security_report" where
  "run_all_checks w =
     (let cs =
            [(''cargo_audit'', check_cargo_audit (audit_exit_code w) (audit_parsed w)),
             (''dependencies'', check_dependencies (cargo_toml w)),
             (''secrets'', check_secrets (secret_matches w)),
             (''unsafe_code'', check_unsafe_code (rust_sources w)),
             (''file_permissions'', check_file_permissions (on_windows w) (file_modes w))];
          statuses = [py_get c ''status'' (PyStr []). c \<leftarrow> map snd cs]
      in \<lparr>security_status =
            (if PyStr ''FAIL'' \<in> set statuses then ''FAIL''
             else if PyStr ''ERROR'' \<in> set statuses then ''ERROR''
             else if PyStr ''WARN'' \<in> set statuses then ''WARN''
             else ''PASS''),
          total_checks = int (length cs),
          total_issues = int (length [st. st \<leftarrow> statuses, st \<in> set [PyStr ''FAIL'', PyStr ''WARN'']]),
          critical_issues = int (length [st. st \<leftarrow> statuses, st = PyStr ''FAIL'']),
          checks = cs\<rparr>)"

definition security_main :: "security_world \<Rightarrow> int" where
  "security_main w =
     (if security_status (run_all_checks w) \<in> set [''PASS'', ''WARN''] then 0 else 1)"

subsection \<open>The statuses of the security checker and a concrete check run\<close>

definition security_statuses :: "string set" where
  "security_statuses = {''PASS'', ''FAIL'', ''SKIP'', ''ERROR'', ''WARN''}"

text \<open>The dictionary \<open>c\<close> has a \<^verbatim>\<open>status\<close> entry, a string of the set \<open>allowed\<close>.\<close>

definition status_in :: "string set \<Rightarrow> pydict \<Rightarrow> bool" where
  "status_in allowed c = (\<exists>s \<in> allowed. map_of c ''status'' = Some (PyStr s))"

definition demo_security :: security_world where
  "demo_security =
     \<lparr>audit_exit_code = 0,
      audit_parsed = Some 0,
      cargo_toml = Some (Inr ''serde = { git = https://github.com/serde-rs/serde }''),
      secret_matches = [],
      rust_sources = [[''fn main() {'', ''    unsafe { run() }'', ''}'']],
      on_windows = False,
      file_modes = [33188, 33206]\<rparr>"

section \<open>aggregate\_qa\_results.py\<close>

text \<open>
  The aggregator reads the JSON form of \<^typ>\<open>qa_report\<close> values. Its result dictionary has
  the keys \<^verbatim>\<open>status\<close> and \<^verbatim>\<open>total_runs\<close> on both exits (fields \<open>agg_status\<close>,
  \<open>total_runs\<close>); the remaining keys exist only when there is at least one report and are
  collected in \<open>totals\<close> (\<^verbatim>\<open>total_tests\<close> as \<open>agg_total_tests\<close>, the entries of
  \<^verbatim>\<open>performance\<close> as fields of their own).
\<close>

record aggregate_totals =
  agg_total_tests :: int
  total_passed :: int
  total_failed :: int
  total_skipped :: int
  total_errors :: int
  overall_pass_rate :: rat
  common_failures :: "(string \<times> int) list"
  avg_startup_time :: rat
  avg_binary_size_mb :: rat
  startup_samples :: int
  binary_samples :: int
  platforms_tested :: "string list"

record aggregated =
  agg_status :: string
  total_runs :: int
  totals :: "aggregate_totals option"

text \<open>
  Line 73, \<^verbatim>\<open>failure_counts[test_name] = failure_counts.get(test_name, 0) + 1\<close>, on a
  dictionary kept in insertion order: a known key keeps its place, a new key goes last.
\<close>

fun bump :: "(string \<times> int) list \<Rightarrow> string \<Rightarrow> (string \<times> int) list" where
  "bump [] k = [(k, 1)]"
| "bump ((k', c) # rest) k = (if k' = k then (k', c + 1) # rest else (k', c) # bump rest k)"

text \<open>Lines 68--73: the scan over every result of every report.\<close>

definition failure_counts :: "qa_report list \<Rightarrow> (string \<times> int) list" where
  "failure_counts reports =
     fold (\<lambda>result counts.
             if status result \<in> set [''FAIL'', ''ERROR''] then bump counts (name result)
             else counts)
          (concat (map results reports)) []"

text \<open>
  \<^verbatim>\<open>sorted(items, key=lambda x: x[1], reverse=True)\<close>: Python's sort is stable, also with
  \<^verbatim>\<open>reverse=True\<close>, so it is the stable sort by the negated count.
\<close>

definition sorted_by_count_desc :: "(string \<times> int) list \<Rightarrow> (string \<times> int) list" where
  "sorted_by_count_desc items = sort_key (\<lambda>x. - snd x) items"

definition aggregate_results :: "qa_report list \<Rightarrow> aggregated" where
  "aggregate_results reports =
     (if reports = [] then \<lparr>agg_status = ''NO_REPORTS'', total_runs = 0, totals = None\<rparr>
      else
        let n_tests = sum_list (map total_tests reports);
            n_passed = sum_list (map passed reports);
            n_failed = sum_list (map failed reports);
            n_skipped = sum_list (map skipped reports);
            n_errors = sum_list (map errors reports);
            rate = of_int n_passed / of_int (max 1 n_tests);
            verdict =
              (if n_errors > 0 then ''ERROR''
               else if n_failed > 0 then
                 (if rate \<ge> 0.8 then ''PASS_WITH_WARNINGS'' else ''FAIL'')
               else ''PASS'');
            startup_times =
              [py_num v. report \<leftarrow> reports, result \<leftarrow> results report,
                         name result = ''Startup Performance'' \<and> status result = ''PASS'',
                         v \<leftarrow> (case map_of (details result) ''average_startup'' of
                                 Some v \<Rightarrow> [v] | None \<Rightarrow> [])];
            binary_sizes = [binary_size_mb (summary report). report \<leftarrow> reports]
        in \<lparr>agg_status = verdict,
            total_runs = int (length reports),
            totals = Some
              \<lparr>agg_total_tests = n_tests,
               total_passed = n_passed,
               total_failed = n_failed,
               total_skipped = n_skipped,
               total_errors = n_errors,
               overall_pass_rate = rate,
               common_failures = sorted_by_count_desc (failure_counts reports),
               avg_startup_time =
                 (if startup_times \<noteq> [] then sum_list startup_times / of_nat (length startup_times)
                  else 0),
               avg_binary_size_mb =
                 (if binary_sizes \<noteq> [] then sum_list binary_sizes / of_nat (length binary_sizes)
                  else 0),
               startup_samples = int (length startup_times),
               binary_samples = int (length binary_sizes),
               platforms_tested = [''unknown'']\<rparr>\<rparr>)"

text \<open>\<^verbatim>\<open>main\<close> of the aggregator, as the exit code for the reports that were loaded.\<close>

definition aggregate_main :: "qa_report list \<Rightarrow> int" where
  "aggregate_main reports =
     (if agg_status (aggregate_results reports) \<in> set [''PASS'', ''PASS_WITH_WARNINGS'']
      then 0 else 1)"

section \<open>qa\_dashboard.py\<close>




section \<open>The aggregate and the trend in the words of the specification\<close>

text \<open>A result counts as a failure when its status is FAIL or ERROR.\<close>

definition failing :: "test_result \<Rightarrow> bool" where
  "failing r = (status r = ''FAIL'' \<or> status r = ''ERROR'')"

text \<open>The number of failing results named \<open>n\<close>, over all results of all reports.\<close>

definition failure_tally :: "qa_report list \<Rightarrow> string \<Rightarrow> int" where
  "failure_tally reports n =
     int (length [r. report \<leftarrow> reports, r \<leftarrow> results report, name r = n \<and> failing r])"

text \<open>The first occurrence of every element, in order.\<close>

fun first_seen :: "string list \<Rightarrow> string list" where
  "first_seen [] = []"
| "first_seen (x # xs) = x # first_seen (filter (\<lambda>y. y \<noteq> x) xs)"

text \<open>The order in which the scan over the reports meets the names of failing results.\<close>

definition discovery_order :: "qa_report list \<Rightarrow> string list" where
  "discovery_order reports =
     first_seen [name r. report \<leftarrow> reports, r \<leftarrow> results report, failing r]"

text \<open>The mean of a window of pass rates; the empty window has mean 0.\<close>

definition mean :: "rat list \<Rightarrow> rat" where
  "mean xs = (if xs = [] then 0 else sum_list xs / of_nat (length xs))"

text \<open>Reports for the examples, built from result lists the way the suite builds them.\<close>

definition outcome_of :: "string \<Rightarrow> string \<Rightarrow> test_result" where
  "outcome_of n s = \<lparr>name = n, category = ''cli'', status = s, duration = 0, details = []\<rparr>"

definition report_of :: "(string \<times> string) list \<Rightarrow> qa_report" where
  "report_of outcomes =
     build_report [''cli''] demo_world [outcome_of n s. (n, s) \<leftarrow> outcomes]"

definition clean_report :: qa_report where
  "clean_report =
     report_of [(''Binary Existence'', ''PASS''), (''Help Command'', ''PASS''),
                (''Version Command'', ''PASS''), (''Startup Performance'', ''PASS''),
                (''Code Quality (Clippy)'', ''PASS'')]"

definition one_failure_report :: qa_report where
  "one_failure_report =
     report_of [(''Binary Existence'', ''PASS''), (''Help Command'', ''FAIL''),
                (''Version Command'', ''PASS''), (''Startup Performance'', ''PASS''),
                (''Code Quality (Clippy)'', ''PASS'')]"


definition flaky_report :: qa_report where
  "flaky_report =
     report_of [(''Help Command'', ''FAIL''), (''Memory Usage'', ''SKIP''),
                (''Version Command'', ''ERROR''), (''Startup Performance'', ''PASS'')]"

definition broken_report :: qa_report where
  "broken_report =
     report_of [(''Version Command'', ''FAIL''), (''Help Command'', ''PASS''),
                (''Code Quality (Clippy)'', ''FAIL'')]"

section \<open>Properties\<close>

subsection \<open>Rating tables are monotone\<close>

lemma rating_score_simps:
  "rating_score ''EXCELLENT'' = 5" "rating_score ''VERY_GOOD'' = 4"
  "rating_score ''GOOD'' = 3" "rating_score ''ACCEPTABLE'' = 2"
  "rating_score ''POOR'' = 1" "rating_score ''HIGH'' = 1" "rating_score ''LARGE'' = 1"
  by (simp_all add: rating_score_def rating_scores_def)

lemma startup_rating_mono:
  "v1 \<le> v2 \<Longrightarrow> rating_score (startup_rating v2) \<le> rating_score (startup_rating v1)"
  by (simp add: startup_rating_def rating_score_simps)

lemma size_rating_mono:
  "v1 \<le> v2 \<Longrightarrow> rating_score (size_rating v2) \<le> rating_score (size_rating v1)"
  by (simp add: size_rating_def rating_score_simps)

lemma memory_rating_mono:
  "v1 \<le> v2 \<Longrightarrow> rating_score (memory_rating v2) \<le> rating_score (memory_rating v1)"
  by (simp add: memory_rating_def rating_score_simps)

text \<open>
  Claim C6. For each rated metric (startup latency, binary size, peak memory) the rating is
  monotone: whenever \<open>v1 < v2\<close>, the ordinal score of the rating of \<open>v1\<close> is at least the
  ordinal score of the rating of \<open>v2\<close>, the ordinal order being the one of
  \<^verbatim>\<open>rating_scores\<close> (EXCELLENT 5, VERY\_GOOD 4, GOOD 3, ACCEPTABLE 2, POOR/HIGH/LARGE 1).
\<close>

theorem rating_monotone:
  assumes "v1 < v2"
  shows "rating_score (startup_rating v1) \<ge> rating_score (startup_rating v2)
       \<and> rating_score (size_rating v1) \<ge> rating_score (size_rating v2)
       \<and> rating_score (memory_rating v1) \<ge> rating_score (memory_rating v2)"
  using assms startup_rating_mono [of v1 v2] size_rating_mono [of v1 v2]
    memory_rating_mono [of v1 v2]
  by simp

theorem rating_monotone_witness:
  "(0.3 :: rat) < 2
   \<and> rating_score (startup_rating 0.3) = 4 \<and> rating_score (startup_rating 2) = 2
   \<and> rating_score (startup_rating 0.3) \<ge> rating_score (startup_rating 2)
   \<and> rating_score (size_rating 0.3) \<ge> rating_score (size_rating 2)
   \<and> rating_score (memory_rating 0.3) \<ge> rating_score (memory_rating 2)"
proof -
  have h: "(0.3 :: rat) < 2" by simp
  have s: "rating_score (startup_rating 0.3) = 4 \<and> rating_score (startup_rating 2) = 2"
    by (simp add: startup_rating_def rating_score_simps)
  from rating_monotone [OF h] h s show ?thesis by simp
qed

subsection \<open>The overall benchmark rating\<close>

lemma spec_ordinal_label: "r \<in> rating_labels \<Longrightarrow> rating_score r = spec_ordinal r"
  by (auto simp: rating_labels_def rating_score_simps spec_ordinal_def)

lemma startup_rating_label: "startup_rating v \<in> rating_labels"
  by (simp add: startup_rating_def rating_labels_def)

lemma size_rating_label: "size_rating v \<in> rating_labels"
  by (simp add: size_rating_def rating_labels_def)

lemma memory_rating_label: "memory_rating v \<in> rating_labels"
  by (simp add: memory_rating_def rating_labels_def)

lemma rated_ok_startup: "rated_ok (benchmark_startup_time calls)"
  by (simp add: rated_ok_def benchmark_startup_time_def Let_def startup_rating_label)

lemma rated_ok_help: "rated_ok (benchmark_help_command calls)"
  by (simp add: rated_ok_def benchmark_help_command_def Let_def)

lemma rated_ok_config: "benchmark_config_generation calls = Inr b \<Longrightarrow> rated_ok b"
  by (auto simp add: rated_ok_def benchmark_config_generation_def Let_def
      split: sum.splits if_splits)

lemma rated_ok_size: "rated_ok (benchmark_binary_size st)"
  by (simp add: rated_ok_def benchmark_binary_size_def Let_def size_rating_label
      split: sum.splits)

lemma rated_ok_memory: "rated_ok (benchmark_memory_usage m)"
  by (simp add: rated_ok_def benchmark_memory_usage_def Let_def memory_rating_label)

lemma rated_ok_concurrent: "rated_ok (benchmark_concurrent_commands n rs t)"
  by (simp add: rated_ok_def benchmark_concurrent_commands_def Let_def)

lemma ratings_of_Nil: "ratings_of [] = []"
  by (simp add: ratings_of_def)

lemma produced_ratings_Nil: "produced_ratings [] = []"
  by (simp add: produced_ratings_def)

lemma ratings_of_Cons:
  "rated_ok b \<Longrightarrow>
   ratings_of ((k, b) # bs) = map spec_ordinal (produced_ratings [(k, b)]) @ ratings_of bs"
  by (auto simp: ratings_of_def produced_ratings_def rated_ok_def spec_ordinal_label
      split: option.splits)

lemma produced_ratings_Cons:
  "produced_ratings ((k, b) # bs) = produced_ratings [(k, b)] @ produced_ratings bs"
  by (simp add: produced_ratings_def)

lemma ratings_of_produced:
  "\<forall>b \<in> snd ` set bs. rated_ok b \<Longrightarrow> ratings_of bs = map spec_ordinal (produced_ratings bs)"
proof (induction bs)
  case Nil
  show ?case by (simp add: ratings_of_Nil produced_ratings_Nil)
next
  case (Cons kb bs)
  obtain k b where kb: "kb = (k, b)" by (cases kb)
  from Cons.prems kb have ok: "rated_ok b" and rest: "\<forall>b \<in> snd ` set bs. rated_ok b"
    by auto
  show ?case
    unfolding kb
    by (subst ratings_of_Cons [OF ok], subst produced_ratings_Cons) (simp add: Cons.IH [OF rest])
qed

lemma produced_ratings_labels:
  "\<forall>b \<in> snd ` set bs. rated_ok b \<Longrightarrow> set (produced_ratings bs) \<subseteq> rating_labels"
proof (induction bs)
  case Nil
  show ?case by (simp add: produced_ratings_Nil)
next
  case (Cons kb bs)
  obtain k b where kb: "kb = (k, b)" by (cases kb)
  from Cons.prems kb have ok: "rated_ok b" and rest: "\<forall>b \<in> snd ` set bs. rated_ok b"
    by auto
  from ok have "set (produced_ratings [(k, b)]) \<subseteq> rating_labels"
    by (auto simp: produced_ratings_def rated_ok_def split: option.splits)
  with Cons.IH [OF rest] show ?case
    unfolding kb by (subst produced_ratings_Cons) simp
qed

lemma run_benchmarks_list:
  assumes "run_all_benchmarks w = Inr res"
  shows "\<exists>cfg. benchmark_config_generation (config_calls w) = Inr cfg \<and>
           benchmarks res =
             [(''startup_time'', benchmark_startup_time (startup_calls w)),
              (''help_command'', benchmark_help_command (help_calls w)),
              (''config_generation'', cfg),
              (''binary_size'', benchmark_binary_size (binary_stat w)),
              (''memory_usage'', benchmark_memory_usage (memory w)),
              (''concurrent_execution'',
                 benchmark_concurrent_commands 5 (concurrent_results w) (concurrent_total_time w))]"
  using assms by (auto simp: run_all_benchmarks_def Let_def split: sum.splits)

lemma run_benchmarks_score:
  assumes "run_all_benchmarks w = Inr res"
  shows "overall_score res =
           (if ratings_of (benchmarks res) \<noteq> []
            then of_int (sum_list (ratings_of (benchmarks res)))
                   / of_nat (length (ratings_of (benchmarks res)))
            else 3)"
  using assms by (auto simp: run_all_benchmarks_def Let_def split: sum.splits)

lemma run_benchmarks_rating:
  assumes "run_all_benchmarks w = Inr res"
  shows "overall_rating res = overall_rating_of (overall_score res)"
  using assms by (auto simp: run_all_benchmarks_def Let_def split: sum.splits)

lemma benchmarks_rated_ok:
  assumes "run_all_benchmarks w = Inr res"
  shows "\<forall>b \<in> snd ` set (benchmarks res). rated_ok b"
proof -
  from run_benchmarks_list [OF assms] obtain cfg
    where c: "benchmark_config_generation (config_calls w) = Inr cfg"
      and b: "benchmarks res =
             [(''startup_time'', benchmark_startup_time (startup_calls w)),
              (''help_command'', benchmark_help_command (help_calls w)),
              (''config_generation'', cfg),
              (''binary_size'', benchmark_binary_size (binary_stat w)),
              (''memory_usage'', benchmark_memory_usage (memory w)),
              (''concurrent_execution'',
                 benchmark_concurrent_commands 5 (concurrent_results w) (concurrent_total_time w))]"
    by blast
  show ?thesis
    unfolding b
    by (simp add: rated_ok_startup rated_ok_help rated_ok_config [OF c] rated_ok_size
        rated_ok_memory rated_ok_concurrent)
qed

lemma overall_rating_of_band: "overall_rating_of s = spec_band s"
  by (simp add: overall_rating_of_def spec_band_def)

lemma produced_ratings_run:
  assumes "run_all_benchmarks w = Inr res"
  shows "produced_ratings (benchmarks res) =
      (let startup_times = [d. (e, out, err, d) \<leftarrow> startup_calls w, e = 0]
       in if startup_times = [] then []
          else [startup_rating (sum_list startup_times / of_nat (length startup_times))])
    @ (case binary_stat w of
         Inl e \<Rightarrow> []
       | Inr size_bytes \<Rightarrow> [size_rating (of_int size_bytes / (1024 * 1024))])
    @ (let samples = (if attach_error (memory w) then []
                      else sample_memory_capped (polls (memory w)))
       in if psutil_missing (memory w) \<or> popen_error (memory w) \<noteq> None \<or> samples = [] then []
          else [memory_rating (py_max samples)])"
proof -
  from run_benchmarks_list [OF assms] obtain cfg
    where c: "benchmark_config_generation (config_calls w) = Inr cfg"
      and b: "benchmarks res =
             [(''startup_time'', benchmark_startup_time (startup_calls w)),
              (''help_command'', benchmark_help_command (help_calls w)),
              (''config_generation'', cfg),
              (''binary_size'', benchmark_binary_size (binary_stat w)),
              (''memory_usage'', benchmark_memory_usage (memory w)),
              (''concurrent_execution'',
                 benchmark_concurrent_commands 5 (concurrent_results w) (concurrent_total_time w))]"
    by blast
  have 1: "produced_ratings [(k, benchmark_startup_time calls)] =
      (let startup_times = [d. (e, out, err, d) \<leftarrow> calls, e = 0]
       in if startup_times = [] then []
          else [startup_rating (sum_list startup_times / of_nat (length startup_times))])"
    for k calls
    by (simp add: produced_ratings_def benchmark_startup_time_def Let_def)
  have 2: "produced_ratings [(k, benchmark_help_command calls)] = []" for k calls
    by (simp add: produced_ratings_def benchmark_help_command_def Let_def)
  have 3: "produced_ratings [(k, cfg)] = []" for k
    using c
    by (auto simp add: produced_ratings_def benchmark_config_generation_def Let_def
        split: sum.splits if_splits)
  have 4: "produced_ratings [(k, benchmark_binary_size st)] =
      (case st of
         Inl e \<Rightarrow> []
       | Inr size_bytes \<Rightarrow> [size_rating (of_int size_bytes / (1024 * 1024))])" for k st
    by (simp add: produced_ratings_def benchmark_binary_size_def Let_def split: sum.splits)
  have 5: "produced_ratings [(k, benchmark_memory_usage m)] =
      (let samples = (if attach_error m then [] else sample_memory_capped (polls m))
       in if psutil_missing m \<or> popen_error m \<noteq> None \<or> samples = [] then []
          else [memory_rating (py_max samples)])" for k m
    by (simp add: produced_ratings_def benchmark_memory_usage_def Let_def)
  have 6: "produced_ratings [(k, benchmark_concurrent_commands n rs t)] = []" for k n rs t
    by (simp add: produced_ratings_def benchmark_concurrent_commands_def Let_def)
  show ?thesis
    unfolding b
    apply (subst produced_ratings_Cons, subst 1)
    apply (subst produced_ratings_Cons, subst 2)
    apply (subst produced_ratings_Cons, subst 3)
    apply (subst produced_ratings_Cons, subst 4)
    apply (subst produced_ratings_Cons, subst 5)
    apply (subst 6)
    apply simp
    done
qed

text \<open>
  Claim C7. For every benchmark run that completes, the overall rating is the band of the
  overall score (at least 4.5 EXCELLENT, 3.5 VERY\_GOOD, 2.5 GOOD, 1.5 ACCEPTABLE, else POOR),
  and the overall score is the arithmetic mean of the ordinal scores of the ratings the run
  produced. A metric without successful samples produces no rating and is therefore left out
  of the mean, not counted as zero: the ratings produced are exactly the startup rating when
  some startup invocation succeeded, the size rating when the size could be read, and the
  memory rating when at least one memory sample was taken. (With no rating at all there is no
  mean; claim C10 covers that case.)
\<close>

theorem overall_rating_is_banded_mean:
  assumes "run_all_benchmarks w = Inr res"
  shows "overall_rating res = spec_band (overall_score res)
       \<and> (produced_ratings (benchmarks res) \<noteq> [] \<longrightarrow>
            overall_score res =
              of_int (sum_list (map spec_ordinal (produced_ratings (benchmarks res))))
                / of_nat (length (produced_ratings (benchmarks res))))
       \<and> set (produced_ratings (benchmarks res)) \<subseteq> rating_labels
       \<and> produced_ratings (benchmarks res) =
            (let startup_times = [d. (e, out, err, d) \<leftarrow> startup_calls w, e = 0]
             in if startup_times = [] then []
                else [startup_rating (sum_list startup_times / of_nat (length startup_times))])
          @ (case binary_stat w of
               Inl e \<Rightarrow> []
             | Inr size_bytes \<Rightarrow> [size_rating (of_int size_bytes / (1024 * 1024))])
          @ (let samples = (if attach_error (memory w) then []
                            else sample_memory_capped (polls (memory w)))
             in if psutil_missing (memory w) \<or> popen_error (memory w) \<noteq> None \<or> samples = []
                then []
                else [memory_rating (py_max samples)])"
proof -
  have eq: "ratings_of (benchmarks res) = map spec_ordinal (produced_ratings (benchmarks res))"
    by (rule ratings_of_produced [OF benchmarks_rated_ok [OF assms]])
  have labels: "set (produced_ratings (benchmarks res)) \<subseteq> rating_labels"
    by (rule produced_ratings_labels [OF benchmarks_rated_ok [OF assms]])
  have band: "overall_rating res = spec_band (overall_score res)"
    by (simp add: run_benchmarks_rating [OF assms] overall_rating_of_band)
  have mean: "produced_ratings (benchmarks res) \<noteq> [] \<longrightarrow>
            overall_score res =
              of_int (sum_list (map spec_ordinal (produced_ratings (benchmarks res))))
                / of_nat (length (produced_ratings (benchmarks res)))"
    by (simp add: run_benchmarks_score [OF assms] eq)
  from band mean labels produced_ratings_run [OF assms] show ?thesis
    by blast
qed

lemma two_rated_world_run:
  "run_all_benchmarks two_rated_world =
     Inr \<lparr>overall_rating = ''VERY_GOOD'', overall_score = 7 / 2,
          benchmarks =
            [(''startup_time'',
                [(''status'', PyStr ''PASS''), (''metric'', PyStr ''startup_time''),
                 (''runs'', PyInt 3), (''average_seconds'', PyFloat (1 / 20)),
                 (''min_seconds'', PyFloat (1 / 20)), (''max_seconds'', PyFloat (1 / 20)),
                 (''rating'', PyStr ''EXCELLENT'')]),
             (''help_command'',
                [(''status'', PyStr ''PASS''), (''metric'', PyStr ''help_command_time''),
                 (''runs'', PyInt 1), (''average_seconds'', PyFloat (1 / 25))]),
             (''config_generation'',
                [(''status'', PyStr ''PASS''), (''metric'', PyStr ''config_generation_time''),
                 (''runs'', PyInt 1), (''average_seconds'', PyFloat (1 / 5))]),
             (''binary_size'',
                [(''status'', PyStr ''PASS''), (''metric'', PyStr ''binary_size''),
                 (''size_bytes'', PyInt 31457280), (''size_mb'', PyFloat 30),
                 (''rating'', PyStr ''ACCEPTABLE'')]),
             (''memory_usage'', [(''status'', PyStr ''FAIL'')]),
             (''concurrent_execution'',
                [(''status'', PyStr ''PASS''), (''metric'', PyStr ''concurrent_execution''),
                 (''concurrent_processes'', PyInt 5), (''successful_runs'', PyInt 5),
                 (''total_time'', PyFloat (3 / 50)),
                 (''average_command_duration'', PyFloat (1 / 20))])],
          summary =
            [(''startup_time'', PyFloat (1 / 20)), (''binary_size_mb'', PyFloat 30),
             (''peak_memory_mb'', PyInt 0), (''concurrent_success_rate'', PyFloat 1)]\<rparr>"
  by code_simp

theorem overall_rating_is_banded_mean_witness:
  "\<exists>res. run_all_benchmarks two_rated_world = Inr res
       \<and> produced_ratings (benchmarks res) = [''EXCELLENT'', ''ACCEPTABLE'']
       \<and> overall_score res = of_int (5 + 2) / 2
       \<and> overall_rating res = ''VERY_GOOD''
       \<and> overall_rating res = spec_band (overall_score res)"
proof -
  let ?res = "projr (run_all_benchmarks two_rated_world)"
  have run: "run_all_benchmarks two_rated_world = Inr ?res"
    by (simp add: two_rated_world_run)
  have p: "produced_ratings (benchmarks ?res) = [''EXCELLENT'', ''ACCEPTABLE'']"
    by (simp add: two_rated_world_run produced_ratings_def)
  from overall_rating_is_banded_mean [OF run] p run show ?thesis
    by (simp add: spec_ordinal_def two_rated_world_run)
qed

subsection \<open>A run without any rated metric\<close>

text \<open>
  Claim C10. If the binary is found, the run completes and no benchmark has both the status
  PASS and a rating, then the overall score is the default 3, the overall rating is GOOD and
  the benchmark script exits with code 0.
\<close>

theorem no_rated_metric_defaults_to_good:
  assumes "binary_found w" and "run_all_benchmarks w = Inr res"
    and "\<forall>b \<in> snd ` set (benchmarks res).
           \<not> (map_of b ''status'' = Some (PyStr ''PASS'') \<and> map_of b ''rating'' \<noteq> None)"
  shows "overall_score res = 3 \<and> overall_rating res = ''GOOD'' \<and> benchmark_main w = 0"
proof -
  have "ratings_of (benchmarks res) = []"
    using assms(3) by (auto simp: ratings_of_def)
  with run_benchmarks_score [OF assms(2)] have 3: "overall_score res = 3"
    by simp
  with run_benchmarks_rating [OF assms(2)] have g: "overall_rating res = ''GOOD''"
    by (simp add: overall_rating_of_def)
  from assms(1,2) g have "benchmark_main w = 0"
    by (simp add: benchmark_main_def)
  with 3 g show ?thesis by simp
qed

lemma unrated_world_run:
  "run_all_benchmarks unrated_world =
     Inr \<lparr>overall_rating = ''GOOD'', overall_score = 3,
          benchmarks =
            [(''startup_time'', [(''status'', PyStr ''FAIL'')]),
             (''help_command'', [(''status'', PyStr ''FAIL'')]),
             (''config_generation'', [(''status'', PyStr ''FAIL'')]),
             (''binary_size'', [(''status'', PyStr ''ERROR'')]),
             (''memory_usage'', [(''status'', PyStr ''SKIP'')]),
             (''concurrent_execution'', [(''status'', PyStr ''FAIL'')])],
          summary =
            [(''startup_time'', PyInt 0), (''binary_size_mb'', PyInt 0),
             (''peak_memory_mb'', PyInt 0), (''concurrent_success_rate'', PyFloat 0)]\<rparr>"
  by code_simp

theorem no_rated_metric_defaults_to_good_witness:
  "binary_found unrated_world
   \<and> (\<exists>res. run_all_benchmarks unrated_world = Inr res
          \<and> map (\<lambda>(metric, b). map_of b ''status'') (benchmarks res) =
              [Some (PyStr ''FAIL''), Some (PyStr ''FAIL''), Some (PyStr ''FAIL''),
               Some (PyStr ''ERROR''), Some (PyStr ''SKIP''), Some (PyStr ''FAIL'')]
          \<and> overall_score res = 3 \<and> overall_rating res = ''GOOD'')
   \<and> benchmark_main unrated_world = 0"
proof -
  let ?res = "projr (run_all_benchmarks unrated_world)"
  have found: "binary_found unrated_world"
    by (simp add: unrated_world_def)
  have run: "run_all_benchmarks unrated_world = Inr ?res"
    by (simp add: unrated_world_run)
  have none: "\<forall>b \<in> snd ` set (benchmarks ?res).
           \<not> (map_of b ''status'' = Some (PyStr ''PASS'') \<and> map_of b ''rating'' \<noteq> None)"
    by (simp add: unrated_world_run)
  from no_rated_metric_defaults_to_good [OF found run none] found run show ?thesis
    by (simp add: unrated_world_run)
qed

subsection \<open>Every check of the suite records one of the four statuses\<close>

lemma statuses_ok_add:
  "statuses_ok self \<Longrightarrow> s \<in> suite_statuses \<Longrightarrow> statuses_ok (add_result n c s d dt self)"
  by (simp add: statuses_ok_def add_result_def)

lemma suite_statuses_simps:
  "''PASS'' \<in> suite_statuses" "''FAIL'' \<in> suite_statuses"
  "''SKIP'' \<in> suite_statuses" "''ERROR'' \<in> suite_statuses"
  by (simp_all add: suite_statuses_def)

lemmas ok_intros = statuses_ok_add suite_statuses_simps

lemma sound_binary: "sound_check (test_binary_exists e x t)"
  by (simp add: sound_check_def test_binary_exists_def ok_intros)

lemma sound_help: "sound_check (test_help_command call)"
  by (simp add: sound_check_def test_help_command_def Let_def ok_intros split: prod.splits)

lemma sound_version: "sound_check (test_version_command call)"
  by (simp add: sound_check_def test_version_command_def Let_def ok_intros split: prod.splits)

lemma sound_formats: "sound_check (test_supported_formats call)"
  by (simp add: sound_check_def test_supported_formats_def Let_def ok_intros split: prod.splits)

lemma sound_config: "sound_check (test_generate_config g)"
  by (simp add: sound_check_def test_generate_config_def Let_def ok_intros split: prod.splits option.splits sum.splits)

lemma sound_invalid: "sound_check (test_invalid_command call)"
  by (simp add: sound_check_def test_invalid_command_def Let_def ok_intros split: prod.splits)

lemma sound_startup: "sound_check (test_performance_startup calls)"
  by (simp add: sound_check_def test_performance_startup_def Let_def ok_intros)

lemma sound_memory: "sound_check (test_memory_usage m)"
  by (simp add: sound_check_def test_memory_usage_def Let_def ok_intros split: option.splits)

lemma sound_quality: "sound_check (test_code_quality call)"
  by (simp add: sound_check_def test_code_quality_def Let_def ok_intros split: prod.splits)

lemma sound_rebuild: "sound_check (test_build_reproducibility b)"
  by (simp add: sound_check_def test_build_reproducibility_def Let_def ok_intros split: prod.splits sum.splits)

lemma sound_registry:
  "\<forall>entry \<in> set (test_categories w). \<forall>test \<in> set (snd entry). sound_check (snd test)"
  by (simp add: test_categories_def sound_binary sound_help sound_version sound_formats sound_config
     sound_invalid sound_startup sound_memory sound_quality sound_rebuild split: prod.splits)

lemma sound_selected:
  "\<forall>entry \<in> set (selected_categories cats w). \<forall>test \<in> set (snd entry). sound_check (snd test)"
  using sound_registry [of w]
  by (auto simp: selected_categories_def split: option.splits)

lemma run_test_ok:
  "sound_check (snd test) \<Longrightarrow> statuses_ok self \<Longrightarrow> statuses_ok (run_test cat test self)"
  by (auto simp: run_test_def sound_check_def ok_intros split: prod.splits outcome.splits
      dest: spec [of _ self])

lemma fold_run_test_ok:
  "\<forall>test \<in> set tests. sound_check (snd test) \<Longrightarrow> statuses_ok self \<Longrightarrow>
   statuses_ok (fold (run_test cat) tests self)"
  by (induction tests arbitrary: self) (simp_all add: run_test_ok)

lemma fold_run_category_ok:
  "\<forall>entry \<in> set entries. \<forall>test \<in> set (snd entry). sound_check (snd test) \<Longrightarrow>
   statuses_ok self \<Longrightarrow> statuses_ok (fold run_category entries self)"
  by (induction entries arbitrary: self) (simp_all add: run_category_def fold_run_test_ok)

lemma results_run_all_tests:
  "results (run_all_tests cats w self) = fold run_category (selected_categories cats w) self"
  by (simp add: run_all_tests_def build_report_def Let_def)

lemma run_all_tests_ok: "statuses_ok (results (run_all_tests cats w []))"
  unfolding results_run_all_tests
  by (rule fold_run_category_ok [OF sound_selected]) (simp add: statuses_ok_def)

lemma count_partition:
  "statuses_ok rs \<Longrightarrow>
   length [r\<leftarrow>rs. status r = ''PASS''] + length [r\<leftarrow>rs. status r = ''FAIL'']
   + length [r\<leftarrow>rs. status r = ''SKIP''] + length [r\<leftarrow>rs. status r = ''ERROR''] = length rs"
  by (induction rs) (auto simp: statuses_ok_def suite_statuses_def)



lemma filter_comprehension: "concat (map (\<lambda>r. if P r then [r] else []) rs) = filter P rs"
  by (induction rs) auto

lemma build_report_counts:
  "passed (build_report tested w rs) = int (length (filter (\<lambda>r. status r = ''PASS'') rs))"
  "failed (build_report tested w rs) = int (length (filter (\<lambda>r. status r = ''FAIL'') rs))"
  "skipped (build_report tested w rs) = int (length (filter (\<lambda>r. status r = ''SKIP'') rs))"
  "errors (build_report tested w rs) = int (length (filter (\<lambda>r. status r = ''ERROR'') rs))"
  "total_tests (build_report tested w rs) = int (length rs)"
  "results (build_report tested w rs) = rs"
  by (simp_all add: build_report_def Let_def filter_comprehension)

lemma build_report_summary:
  "overall_status (summary (build_report tested w rs)) =
     (if failed (build_report tested w rs) = 0 \<and> errors (build_report tested w rs) = 0
      then ''PASS'' else ''FAIL'')"
  "pass_rate (summary (build_report tested w rs)) =
     (if rs \<noteq> [] then of_int (passed (build_report tested w rs)) / of_nat (length rs) else 0)"
  by (simp_all add: build_report_def Let_def filter_comprehension)

lemma run_is_build:
  "run_all_tests cats w self =
     build_report (map fst (selected_categories cats w)) w (results (run_all_tests cats w self))"
  by (simp add: run_all_tests_def Let_def build_report_counts)

lemma demo_run_statuses:
  "map status (results (run_all_tests None demo_world [])) =
     [''PASS'', ''PASS'', ''PASS'', ''PASS'', ''PASS'', ''ERROR'', ''PASS'', ''PASS'', ''SKIP'', ''FAIL'']"
  by code_simp

lemma count_by_status:
  "length (filter (\<lambda>r. status r = s) rs) = length (filter (\<lambda>x. x = s) (map status rs))"
  by (simp add: filter_map comp_def)

lemma demo_run_counts:
  "passed (run_all_tests None demo_world []) = 7"
  "failed (run_all_tests None demo_world []) = 1"
  "skipped (run_all_tests None demo_world []) = 1"
  "errors (run_all_tests None demo_world []) = 1"
  "total_tests (run_all_tests None demo_world []) = 10"
proof -
  let ?rs = "results (run_all_tests None demo_world [])"
  have r: "run_all_tests None demo_world []
             = build_report (map fst (selected_categories None demo_world)) demo_world ?rs"
    by (rule run_is_build)
  have n: "length ?rs = 10"
    using arg_cong [OF demo_run_statuses, of length] by simp
  show "passed (run_all_tests None demo_world []) = 7"
    by (subst r) (simp add: build_report_counts count_by_status demo_run_statuses)
  show "failed (run_all_tests None demo_world []) = 1"
    by (subst r) (simp add: build_report_counts count_by_status demo_run_statuses)
  show "skipped (run_all_tests None demo_world []) = 1"
    by (subst r) (simp add: build_report_counts count_by_status demo_run_statuses)
  show "errors (run_all_tests None demo_world []) = 1"
    by (subst r) (simp add: build_report_counts count_by_status demo_run_statuses)
  show "total_tests (run_all_tests None demo_world []) = 10"
    by (subst r) (simp add: build_report_counts n)
qed

text \<open>
  Claim C3. For the report of every suite run (any selection of categories, any outcome of
  the checks, including checks that raise): \<open>passed + failed + skipped + errors\<close> equals
  \<open>total_tests\<close>, the pass rate lies between 0 and 1, and the pass rate is 0 when
  \<open>total_tests\<close> is 0. The run starts from a fresh agent, as \<^verbatim>\<open>main\<close> does.
\<close>

theorem run_report_counts_and_pass_rate:
  "passed (run_all_tests categories w []) + failed (run_all_tests categories w [])
     + skipped (run_all_tests categories w []) + errors (run_all_tests categories w [])
     = total_tests (run_all_tests categories w [])
   \<and> 0 \<le> pass_rate (summary (run_all_tests categories w []))
   \<and> pass_rate (summary (run_all_tests categories w [])) \<le> 1
   \<and> (total_tests (run_all_tests categories w []) = 0 \<longrightarrow>
        pass_rate (summary (run_all_tests categories w [])) = 0)"
proof -
  let ?rs = "results (run_all_tests categories w [])"
  let ?tested = "map fst (selected_categories categories w)"
  have r: "run_all_tests categories w [] = build_report ?tested w ?rs"
    by (rule run_is_build)
  have ok: "statuses_ok ?rs" by (rule run_all_tests_ok)
  have sum: "passed (build_report ?tested w ?rs) + failed (build_report ?tested w ?rs)
     + skipped (build_report ?tested w ?rs) + errors (build_report ?tested w ?rs)
     = total_tests (build_report ?tested w ?rs)"
    using count_partition [OF ok] by (simp add: build_report_counts)
  have le: "length (filter (\<lambda>r. status r = ''PASS'') ?rs) \<le> length ?rs"
    by (rule length_filter_le)
  have lo: "0 \<le> pass_rate (summary (build_report ?tested w ?rs))"
    by (simp add: build_report_summary build_report_counts)
  have hi: "pass_rate (summary (build_report ?tested w ?rs)) \<le> 1"
    using le by (simp add: build_report_summary build_report_counts)
  have z: "total_tests (build_report ?tested w ?rs) = 0 \<longrightarrow>
        pass_rate (summary (build_report ?tested w ?rs)) = 0"
    by (simp add: build_report_summary build_report_counts)
  from sum lo hi z show ?thesis
    unfolding r [symmetric] by blast
qed

lemma empty_selection:
  "total_tests (run_all_tests (Some [''security'']) demo_world []) = 0"
  by (simp add: run_all_tests_def selected_categories_def test_categories_def build_report_def Let_def)

theorem run_report_counts_and_pass_rate_witness:
  "total_tests (run_all_tests (Some [''security'']) demo_world []) = 0
   \<and> pass_rate (summary (run_all_tests (Some [''security'']) demo_world [])) = 0
   \<and> total_tests (run_all_tests None demo_world []) = 7 + 1 + 1 + 1
   \<and> 0 \<le> pass_rate (summary (run_all_tests None demo_world []))
   \<and> pass_rate (summary (run_all_tests None demo_world [])) \<le> 1"
  using run_report_counts_and_pass_rate [of "Some [''security'']" demo_world]
    run_report_counts_and_pass_rate [of None demo_world] empty_selection
  by (simp add: demo_run_counts)

text \<open>
  Claim C4. The summary's overall status of a suite run is PASS if and only if the failed
  count and the errors count are both 0; skipped results do not enter the condition.
\<close>

theorem overall_status_pass_iff:
  "(overall_status (summary (run_all_tests categories w self)) = ''PASS'')
     = (failed (run_all_tests categories w self) = 0 \<and> errors (run_all_tests categories w self) = 0)"
  by (subst (1 2 3) run_is_build) (simp add: build_report_summary)

subsection \<open>The status enumeration, and the security checker's fifth status\<close>

lemma security_check_statuses:
  "status_in security_statuses (check_cargo_audit e p)"
  "status_in security_statuses (check_dependencies t)"
  "status_in security_statuses (check_secrets ms)"
  "status_in security_statuses (check_unsafe_code fs)"
  "status_in security_statuses (check_file_permissions win modes)"
  by (simp_all add: status_in_def security_statuses_def check_cargo_audit_def check_dependencies_def
      check_secrets_def check_unsafe_code_def check_file_permissions_def Let_def
      split: option.splits sum.splits)

lemma checks_run_all_checks:
  "checks (run_all_checks w) =
            [(''cargo_audit'', check_cargo_audit (audit_exit_code w) (audit_parsed w)),
             (''dependencies'', check_dependencies (cargo_toml w)),
             (''secrets'', check_secrets (secret_matches w)),
             (''unsafe_code'', check_unsafe_code (rust_sources w)),
             (''file_permissions'', check_file_permissions (on_windows w) (file_modes w))]"
  by (simp add: run_all_checks_def Let_def)

text \<open>
  Claim C8, as amended. Every result of the suite's checks has a status in
  \<open>{PASS, FAIL, SKIP, ERROR}\<close>. Every check of the security checker has a status in
  \<open>{PASS, FAIL, SKIP, ERROR, WARN}\<close>.
\<close>

theorem check_statuses_closed:
  "(\<forall>r \<in> set (results (run_all_tests categories w [])). status r \<in> suite_statuses)
   \<and> (\<forall>c \<in> snd ` set (checks (run_all_checks sw)). status_in security_statuses c)"
proof -
  have "statuses_ok (results (run_all_tests categories w []))" by (rule run_all_tests_ok)
  then have 1: "\<forall>r \<in> set (results (run_all_tests categories w [])). status r \<in> suite_statuses"
    by (simp add: statuses_ok_def list_all_iff)
  have 2: "\<forall>c \<in> snd ` set (checks (run_all_checks sw)). status_in security_statuses c"
    by (simp add: checks_run_all_checks security_check_statuses)
  from 1 2 show ?thesis by blast
qed

text \<open>
  The claim as stated fails: for a \<^verbatim>\<open>Cargo.toml\<close> with a git dependency the security
  checker's dependency check has the status WARN, which is none of the four.
\<close>

theorem warn_status_counterexample:
  "map_of (check_dependencies (Some (Inr ''serde = { git = https://github.com/serde-rs/serde }'')))
      ''status'' = Some (PyStr ''WARN'')
   \<and> ''WARN'' \<notin> suite_statuses"
  by (simp add: check_dependencies_def suite_statuses_def)

lemma demo_security_statuses:
  "map (\<lambda>c. map_of (snd c) ''status'') (checks (run_all_checks demo_security)) =
     [Some (PyStr ''PASS''), Some (PyStr ''WARN''), Some (PyStr ''PASS''), Some (PyStr ''WARN''),
      Some (PyStr ''WARN'')]"
  by code_simp

theorem check_statuses_closed_witness:
  "map status (results (run_all_tests None demo_world [])) =
     [''PASS'', ''PASS'', ''PASS'', ''PASS'', ''PASS'', ''ERROR'', ''PASS'', ''PASS'', ''SKIP'', ''FAIL'']
   \<and> set (map status (results (run_all_tests None demo_world []))) \<subseteq> suite_statuses
   \<and> map (\<lambda>c. map_of (snd c) ''status'') (checks (run_all_checks demo_security)) =
     [Some (PyStr ''PASS''), Some (PyStr ''WARN''), Some (PyStr ''PASS''), Some (PyStr ''WARN''),
      Some (PyStr ''WARN'')]
   \<and> list_all (status_in security_statuses) (map snd (checks (run_all_checks demo_security)))"
proof -
  note both = check_statuses_closed [of None demo_world demo_security]
  from both have "set (map status (results (run_all_tests None demo_world []))) \<subseteq> suite_statuses"
    by auto
  moreover from both
  have "list_all (status_in security_statuses) (map snd (checks (run_all_checks demo_security)))"
    by (simp add: list_all_iff)
  ultimately show ?thesis
    using demo_run_statuses demo_security_statuses by blast
qed

subsection \<open>A memory check without samples\<close>

text \<open>
  Claim C2. When the child runs and no memory sample is collected, the suite's memory check
  records SKIP, but the benchmark script's memory check returns the status FAIL: evaluated on
  the observation \<open>early_exit\<close>.
\<close>

theorem zero_samples_suite_skips_benchmark_fails:
  "map status (snd (test_memory_usage early_exit [])) = [''SKIP'']
   \<and> map_of (benchmark_memory_usage early_exit) ''status'' = Some (PyStr ''FAIL'')"
  by (simp add: test_memory_usage_def benchmark_memory_usage_def early_exit_def add_result_def)

subsection \<open>The aggregate status\<close>

lemma sum_list_pos_iff:
  "\<forall>r \<in> set rs. (0::int) \<le> f r \<Longrightarrow> (0 < sum_list (map f rs)) = (\<exists>r \<in> set rs. f r \<noteq> 0)"
proof (induction rs)
  case Nil
  show ?case by simp
next
  case (Cons r rs)
  then have 1: "0 \<le> f r" and 2: "0 \<le> sum_list (map f rs)"
    by (auto intro!: sum_list_nonneg)
  from Cons have ih: "(0 < sum_list (map f rs)) = (\<exists>r \<in> set rs. f r \<noteq> 0)" by simp
  show ?case using 1 2 ih by auto
qed

lemma totals_nonempty:
  "reports \<noteq> [] \<Longrightarrow>
     \<exists>t. totals (aggregate_results reports) = Some t
        \<and> overall_pass_rate t =
            of_int (sum_list (map passed reports))
              / of_int (max 1 (sum_list (map total_tests reports)))"
  by (simp add: aggregate_results_def Let_def)

lemma agg_status_cascade:
  assumes "\<forall>r \<in> set reports. 0 \<le> failed r \<and> 0 \<le> errors r"
  shows "agg_status (aggregate_results reports) =
           (if reports = [] then ''NO_REPORTS''
            else if \<exists>r \<in> set reports. errors r \<noteq> 0 then ''ERROR''
            else if (\<exists>r \<in> set reports. failed r \<noteq> 0)
                    \<and> overall_pass_rate (the (totals (aggregate_results reports))) \<ge> 0.8
              then ''PASS_WITH_WARNINGS''
            else if \<exists>r \<in> set reports. failed r \<noteq> 0 then ''FAIL''
            else ''PASS'')"
proof -
  from assms have e: "(0 < sum_list (map errors reports)) = (\<exists>r \<in> set reports. errors r \<noteq> 0)"
    by (intro sum_list_pos_iff) simp
  from assms have f: "(0 < sum_list (map failed reports)) = (\<exists>r \<in> set reports. failed r \<noteq> 0)"
    by (intro sum_list_pos_iff) simp
  show ?thesis
    unfolding aggregate_results_def Let_def
    by (simp add: e f)
qed

lemma two_report_scenario:
  assumes "total_tests r1 = 5" "passed r1 = 5" "failed r1 = 0" "errors r1 = 0"
    and "total_tests r2 = 5" "passed r2 = 4" "failed r2 = 1" "errors r2 = 0"
  shows "overall_pass_rate (the (totals (aggregate_results [r1, r2]))) = 9 / 10
       \<and> agg_status (aggregate_results [r1, r2]) = ''PASS_WITH_WARNINGS''"
  using assms by (simp add: aggregate_results_def Let_def)

text \<open>
  Claim C1. The aggregate status follows the priority order: no report gives NO\_REPORTS;
  else a report with a non-zero error count gives ERROR; else a failure together with an
  overall pass rate of at least 0.8 gives PASS\_WITH\_WARNINGS; else a failure gives FAIL;
  else PASS. The overall pass rate is the sum of the passed counts over the sum of the test
  counts (at least 1). Two reports of 5 tests, one with 5 passed and one with 4 passed and 1
  failed, no errors, have the overall pass rate 9/10 and the status PASS\_WITH\_WARNINGS. The
  counts of a report are numbers of results, hence not negative.
\<close>

theorem aggregate_status_priority:
  assumes "\<forall>r \<in> set reports. 0 \<le> failed r \<and> 0 \<le> errors r"
  shows "agg_status (aggregate_results reports) =
           (if reports = [] then ''NO_REPORTS''
            else if \<exists>r \<in> set reports. errors r \<noteq> 0 then ''ERROR''
            else if (\<exists>r \<in> set reports. failed r \<noteq> 0)
                    \<and> overall_pass_rate (the (totals (aggregate_results reports))) \<ge> 0.8
              then ''PASS_WITH_WARNINGS''
            else if \<exists>r \<in> set reports. failed r \<noteq> 0 then ''FAIL''
            else ''PASS'')
       \<and> (reports \<noteq> [] \<longrightarrow>
            (\<exists>t. totals (aggregate_results reports) = Some t
                \<and> overall_pass_rate t =
                    of_int (sum_list (map passed reports))
                      / of_int (max 1 (sum_list (map total_tests reports)))))
       \<and> (\<forall>r1 r2. total_tests r1 = 5 \<and> passed r1 = 5 \<and> failed r1 = 0 \<and> errors r1 = 0
                 \<and> total_tests r2 = 5 \<and> passed r2 = 4 \<and> failed r2 = 1 \<and> errors r2 = 0 \<longrightarrow>
              overall_pass_rate (the (totals (aggregate_results [r1, r2]))) = 9 / 10
              \<and> agg_status (aggregate_results [r1, r2]) = ''PASS_WITH_WARNINGS'')"
  using agg_status_cascade [OF assms] totals_nonempty [of reports] two_report_scenario
  by blast

lemma demo_reports_counts:
  "total_tests clean_report = 5" "passed clean_report = 5" "failed clean_report = 0"
  "errors clean_report = 0"
  "total_tests one_failure_report = 5" "passed one_failure_report = 4"
  "failed one_failure_report = 1" "errors one_failure_report = 0"
  by code_simp+

theorem aggregate_status_priority_witness:
  "overall_pass_rate (the (totals (aggregate_results [clean_report, one_failure_report]))) = 9 / 10
   \<and> agg_status (aggregate_results [clean_report, one_failure_report]) = ''PASS_WITH_WARNINGS''
   \<and> (\<exists>r \<in> set [clean_report, one_failure_report]. failed r \<noteq> 0)
   \<and> \<not> (\<exists>r \<in> set [clean_report, one_failure_report]. errors r \<noteq> 0)"
proof -
  have nonneg: "\<forall>r \<in> set [clean_report, one_failure_report]. 0 \<le> failed r \<and> 0 \<le> errors r"
    by (simp add: demo_reports_counts)
  from aggregate_status_priority [OF nonneg]
  have "total_tests r1 = 5 \<and> passed r1 = 5 \<and> failed r1 = 0 \<and> errors r1 = 0
         \<and> total_tests r2 = 5 \<and> passed r2 = 4 \<and> failed r2 = 1 \<and> errors r2 = 0 \<longrightarrow>
        overall_pass_rate (the (totals (aggregate_results [r1, r2]))) = 9 / 10
        \<and> agg_status (aggregate_results [r1, r2]) = ''PASS_WITH_WARNINGS''" for r1 r2
    by blast
  from this [of clean_report one_failure_report]
  have "overall_pass_rate (the (totals (aggregate_results [clean_report, one_failure_report]))) = 9 / 10
        \<and> agg_status (aggregate_results [clean_report, one_failure_report]) = ''PASS_WITH_WARNINGS''"
    by (simp only: demo_reports_counts simp_thms)
  then show ?thesis
    by (simp add: demo_reports_counts)
qed

subsection \<open>The failure-frequency table\<close>

lemma set_first_seen: "set (first_seen xs) = set xs"
  by (induction xs rule: first_seen.induct) auto

lemma distinct_first_seen: "distinct (first_seen xs)"
  by (induction xs rule: first_seen.induct) (auto simp: set_first_seen)

lemma first_seen_filter:
  "first_seen (filter P xs) = filter P (first_seen xs)"
proof (induction xs rule: first_seen.induct)
  case 1
  show ?case by simp
next
  case (2 x xs)
  have comm: "filter (\<lambda>y. y \<noteq> x) (filter P xs) = filter P (filter (\<lambda>y. y \<noteq> x) xs)"
    by (auto intro: filter_cong)
  show ?case
  proof (cases "P x")
    case True
    then have "first_seen (filter P (x # xs)) = x # first_seen (filter P (filter (\<lambda>y. y \<noteq> x) xs))"
      by (simp add: comm del: filter_filter)
    also have "\<dots> = x # filter P (first_seen (filter (\<lambda>y. y \<noteq> x) xs))"
      by (simp only: "2.IH")
    also have "\<dots> = filter P (first_seen (x # xs))"
      using True by simp
    finally show ?thesis .
  next
    case False
    have "x \<notin> set (filter P xs)" using False by simp
    have "filter P (first_seen (x # xs)) = filter P (first_seen (filter (\<lambda>y. y \<noteq> x) xs))"
      using False by simp
    also have "\<dots> = first_seen (filter P (filter (\<lambda>y. y \<noteq> x) xs))"
      by (simp only: "2.IH")
    also have "filter P (filter (\<lambda>y. y \<noteq> x) xs) = filter P xs"
      using False by (auto intro: filter_cong)
    finally show ?thesis using False by simp
  qed
qed

text \<open>Keys and values after one increment.\<close>

lemma in_keys: "(a, b) \<in> set xs \<Longrightarrow> a \<in> fst ` set xs"
  by force

lemma keys_bump:
  "map fst (bump counts k) = (if k \<in> fst ` set counts then map fst counts else map fst counts @ [k])"
  by (induction counts) (auto dest: in_keys)

lemma keyset_bump: "fst ` set (bump counts k) = insert k (fst ` set counts)"
proof -
  have "set (map fst (bump counts k)) = insert k (fst ` set counts)"
    by (subst keys_bump) auto
  then show ?thesis by simp
qed

lemma map_of_bump:
  "map_of (bump counts k) = (map_of counts)(k \<mapsto> (case map_of counts k of None \<Rightarrow> 1 | Some c \<Rightarrow> c + 1))"
  by (induction counts) (auto simp: fun_eq_iff)

lemma keys_fold_bump:
  "map fst (fold (\<lambda>k counts. bump counts k) ks acc) =
     map fst acc @ first_seen (filter (\<lambda>k. k \<notin> fst ` set acc) ks)"
proof (induction ks arbitrary: acc)
  case Nil
  show ?case by simp
next
  case (Cons k ks)
  have ih: "map fst (fold (\<lambda>k counts. bump counts k) ks (bump acc k)) =
     map fst (bump acc k) @ first_seen (filter (\<lambda>j. j \<notin> insert k (fst ` set acc)) ks)"
    by (simp only: Cons.IH keyset_bump)
  show ?case
  proof (cases "k \<in> fst ` set acc")
    case True
    then have "insert k (fst ` set acc) = fst ` set acc" by auto
    with True ih show ?thesis
      by (simp add: keys_bump)
  next
    case False
    have "filter (\<lambda>y. y \<noteq> k) (filter (\<lambda>k. k \<notin> fst ` set acc) ks)
        = filter (\<lambda>j. j \<notin> insert k (fst ` set acc)) ks"
      by (auto intro: filter_cong)
    with False ih show ?thesis
      by (simp add: keys_bump del: filter_filter)
  qed
qed

lemma map_of_fold_bump:
  "map_of (fold (\<lambda>k counts. bump counts k) ks acc) n =
     (if count_list ks n = 0 then map_of acc n
      else Some ((case map_of acc n of None \<Rightarrow> 0 | Some c \<Rightarrow> c) + int (count_list ks n)))"
  by (induction ks arbitrary: acc) (auto simp: map_of_bump split: option.splits)

lemma alist_by_keys:
  "distinct (map fst xs) \<Longrightarrow> xs = map (\<lambda>n. (n, the (map_of xs n))) (map fst xs)"
proof (induction xs)
  case Nil
  show ?case by simp
next
  case (Cons x xs)
  obtain a b where x: "x = (a, b)" by (cases x)
  from Cons.prems x have a: "a \<notin> fst ` set xs" and d: "distinct (map fst xs)" by auto
  have "map (\<lambda>n. (n, the (map_of ((a, b) # xs) n))) (map fst xs)
      = map (\<lambda>n. (n, the (map_of xs n))) (map fst xs)"
    using a by (intro map_cong) auto
  with Cons.IH [OF d] show ?case
    unfolding x by simp
qed

lemma fold_bump_names:
  "fold (\<lambda>result counts. if status result \<in> set [''FAIL'', ''ERROR''] then bump counts (name result) else counts) rs acc
   = fold (\<lambda>k counts. bump counts k) (map name (filter failing rs)) acc"
  by (induction rs arbitrary: acc) (auto simp: failing_def)

lemma concat_if_filter:
  "concat (map (\<lambda>r. if P r then [f r] else []) xs) = map f (filter P xs)"
  by (induction xs) auto

lemma comprehension_names:
  "[name r. report \<leftarrow> reports, r \<leftarrow> results report, failing r]
    = map name (filter failing (concat (map results reports)))"
  by (induction reports) (simp_all add: concat_if_filter)

lemma comprehension_tally:
  "[r. report \<leftarrow> reports, r \<leftarrow> results report, name r = n \<and> failing r]
    = filter (\<lambda>r. name r = n \<and> failing r) (concat (map results reports))"
  by (induction reports) (simp_all add: concat_if_filter [where f = "\<lambda>r. r", simplified])

lemma count_names:
  "count_list (map f (filter P xs)) n = length (filter (\<lambda>r. f r = n \<and> P r) xs)"
  by (induction xs) auto

lemma failure_counts_eq:
  "failure_counts reports =
     map (\<lambda>n. (n, failure_tally reports n)) (discovery_order reports)"
proof -
  let ?ks = "map name (filter failing (concat (map results reports)))"
  let ?fc = "fold (\<lambda>k counts. bump counts k) ?ks []"
  have fc: "failure_counts reports = ?fc"
    by (simp only: failure_counts_def fold_bump_names)
  have keys: "map fst ?fc = discovery_order reports"
    by (simp add: keys_fold_bump discovery_order_def comprehension_names)
  then have d: "distinct (map fst ?fc)"
    by (simp add: discovery_order_def distinct_first_seen)
  have tally: "failure_tally reports n = int (count_list ?ks n)" for n
    by (simp only: failure_tally_def comprehension_tally count_names)
  have val: "the (map_of ?fc n) = failure_tally reports n" if "n \<in> set ?ks" for n
  proof -
    from that have "count_list ?ks n \<noteq> 0" by (simp add: count_list_0_iff)
    then show ?thesis by (simp add: map_of_fold_bump tally)
  qed
  have "?fc = map (\<lambda>n. (n, the (map_of ?fc n))) (map fst ?fc)"
    by (rule alist_by_keys [OF d])
  also have "\<dots> = map (\<lambda>n. (n, failure_tally reports n)) (map fst ?fc)"
  proof (rule map_cong [OF refl])
    fix n assume "n \<in> set (map fst ?fc)"
    then have "n \<in> set ?ks"
      by (simp only: keys discovery_order_def comprehension_names set_first_seen)
    then show "(n, the (map_of ?fc n)) = (n, failure_tally reports n)"
      by (simp only: val)
  qed
  finally show ?thesis
    by (simp only: fc keys)
qed


lemma discovery_order_alt:
  "discovery_order reports = first_seen (map name (filter failing (concat (map results reports))))"
  by (simp only: discovery_order_def comprehension_names)

lemma failure_tally_alt:
  "failure_tally reports n
     = int (count_list (map name (filter failing (concat (map results reports)))) n)"
  by (simp only: failure_tally_def comprehension_tally count_names)

lemma tally_zero_iff: "(failure_tally reports n = 0) = (n \<notin> set (discovery_order reports))"
  by (simp add: failure_tally_alt discovery_order_alt set_first_seen count_list_0_iff)

lemma totals_common:
  "totals (aggregate_results reports) = Some t \<Longrightarrow>
     common_failures t = sort_key (\<lambda>x. - snd x) (failure_counts reports)"
  by (auto simp: aggregate_results_def Let_def sorted_by_count_desc_def split: if_splits)

lemma pairs_with_count:
  "[n. (n, k) \<leftarrow> xs, k = c] = map fst (filter (\<lambda>y. snd y = c) xs)"
  by (induction xs) auto

lemma names_with_count:
  "[n. n \<leftarrow> ns, f n = c] = filter (\<lambda>n. f n = c) ns"
  by (induction ns) auto

text \<open>
  Claim C9. Whenever the aggregate has a table of common failures (there is at least one
  report), the table has one entry per check name with a failing result; it maps each name to
  the number of results with that name and status FAIL or ERROR over all reports, and no
  other name; it is sorted by descending count; and the names with one and the same count
  stand in the order in which the scan first met them.
\<close>

theorem common_failures_table:
  assumes "totals (aggregate_results reports) = Some t"
  shows "distinct (map fst (common_failures t))
       \<and> (\<forall>n. map_of (common_failures t) n =
                (if failure_tally reports n = 0 then None else Some (failure_tally reports n)))
       \<and> sorted_wrt (\<lambda>a b. snd a \<ge> snd b) (common_failures t)
       \<and> (\<forall>c. [n. (n, k) \<leftarrow> common_failures t, k = c] =
                [n. n \<leftarrow> discovery_order reports, failure_tally reports n = c])"
proof -
  let ?order = "discovery_order reports"
  let ?fc = "map (\<lambda>n. (n, failure_tally reports n)) ?order"
  let ?table = "sort_key (\<lambda>x. - snd x) ?fc"
  have table: "common_failures t = ?table"
    by (simp only: totals_common [OF assms] failure_counts_eq)
  have keys_fc: "map fst ?fc = ?order" by (simp add: comp_def)
  have "distinct (map fst ?fc)"
    unfolding keys_fc by (simp add: discovery_order_def distinct_first_seen)
  then have "distinct ?fc" and "inj_on fst (set ?fc)"
    by (simp_all only: distinct_map)
  then have d: "distinct (map fst ?table)"
    by (simp only: distinct_map distinct_sort set_sort)
  have set_table: "set ?table = set ?fc" by (simp only: set_sort)
  have lookup: "map_of ?table n =
      (if failure_tally reports n = 0 then None else Some (failure_tally reports n))" for n
  proof (cases "failure_tally reports n = 0")
    case True
    then have "n \<notin> set ?order" by (simp add: tally_zero_iff)
    then have "n \<notin> fst ` set ?table"
      unfolding set_table by (auto simp: image_iff)
    then have "map_of ?table n = None" by (rule map_of_eq_None_iff [THEN iffD2])
    with True show ?thesis by simp
  next
    case False
    then have "n \<in> set ?order" by (simp add: tally_zero_iff)
    then have "(n, failure_tally reports n) \<in> set ?table"
      unfolding set_table by auto
    from map_of_is_SomeI [OF d this] False show ?thesis by simp
  qed
  have "sorted (map (\<lambda>x. - snd x) ?table)" by (rule sorted_sort_key)
  then have s: "sorted_wrt (\<lambda>a b. snd a \<ge> snd b) ?table"
    by (simp add: sorted_map)
  have stable: "[n. (n, k) \<leftarrow> ?table, k = c] =
                [n. n \<leftarrow> ?order, failure_tally reports n = c]" for c
  proof -
    have "filter (\<lambda>y. - snd y = - c) ?table = filter (\<lambda>y. - snd y = - c) ?fc"
      by (rule sort_key_stable)
    then have "filter (\<lambda>y. snd y = c) ?table = filter (\<lambda>y. snd y = c) ?fc"
      by simp
    then have "map fst (filter (\<lambda>y. snd y = c) ?table)
        = filter (\<lambda>n. failure_tally reports n = c) ?order"
      by (simp add: filter_map comp_def)
    then show ?thesis
      by (simp only: pairs_with_count names_with_count)
  qed
  from d lookup s stable show ?thesis
    unfolding table by blast
qed

lemma demo_history:
  "totals (aggregate_results [flaky_report, broken_report])
     = Some (the (totals (aggregate_results [flaky_report, broken_report])))"
  "common_failures (the (totals (aggregate_results [flaky_report, broken_report])))
     = [(''Version Command'', 2), (''Help Command'', 1), (''Code Quality (Clippy)'', 1)]"
  "discovery_order [flaky_report, broken_report]
     = [''Help Command'', ''Version Command'', ''Code Quality (Clippy)'']"
  by code_simp+

theorem common_failures_table_witness:
  "\<exists>t. totals (aggregate_results [flaky_report, broken_report]) = Some t
      \<and> common_failures t
          = [(''Version Command'', 2), (''Help Command'', 1), (''Code Quality (Clippy)'', 1)]
      \<and> discovery_order [flaky_report, broken_report]
          = [''Help Command'', ''Version Command'', ''Code Quality (Clippy)'']
      \<and> failure_tally [flaky_report, broken_report] ''Version Command'' = 2
      \<and> failure_tally [flaky_report, broken_report] ''Help Command'' = 1
      \<and> failure_tally [flaky_report, broken_report] ''Memory Usage'' = 0"
proof -
  note t = common_failures_table [OF demo_history(1)]
  from t have lookup: "map_of (common_failures (the (totals (aggregate_results [flaky_report, broken_report])))) n =
                (if failure_tally [flaky_report, broken_report] n = 0 then None
                 else Some (failure_tally [flaky_report, broken_report] n))" for n
    by blast
  from lookup [of "''Version Command''"] have 1: "failure_tally [flaky_report, broken_report] ''Version Command'' = 2"
    by (simp add: demo_history(2) split: if_splits)
  from lookup [of "''Help Command''"] have 2: "failure_tally [flaky_report, broken_report] ''Help Command'' = 1"
    by (simp add: demo_history(2) split: if_splits)
  from lookup [of "''Memory Usage''"] have 3: "failure_tally [flaky_report, broken_report] ''Memory Usage'' = 0"
    by (simp add: demo_history(2) split: if_splits)
  from demo_history 1 2 3 show ?thesis by blast
qed

subsection \<open>The trend direction\<close>








end
